theory Spec2Isabelle
  imports Complex_Main
begin

section \<open>JavaScript values and strings\<close>

text \<open>
  The components are TypeScript/React function components. A value that comes out of
  \<^verbatim>\<open>JSON.parse\<close> is modelled by the datatype below; \<open>None\<close> at type \<open>jsval\<close>
  is JavaScript's \<^verbatim>\<open>undefined\<close>. Numbers are exact rationals. Strings are lists of
  code units below 256; a \<^verbatim>\<open>Date\<close> is its number of milliseconds.
\<close>

datatype json =
    JNull
  | JBool bool
  | JNum rat
  | JStr string
  | JArr "json list"
  | JObj "(string \<times> json) list"

type_synonym jsval = "json option"

datatype js_error = TypeError | ApiError

text \<open>Truthiness, as used by \<^verbatim>\<open>c ? a : b\<close> and \<^verbatim>\<open>a || b\<close>.\<close>

fun truthy :: "jsval \<Rightarrow> bool" where
  "truthy None = False"
| "truthy (Some JNull) = False"
| "truthy (Some (JBool b)) = b"
| "truthy (Some (JNum n)) = (n \<noteq> 0)"
| "truthy (Some (JStr s)) = (s \<noteq> [])"
| "truthy (Some (JArr xs)) = True"
| "truthy (Some (JObj kvs)) = True"

text \<open>
  Reading a property \<^verbatim>\<open>v.k\<close> of a parsed value: \<^verbatim>\<open>null.k\<close> throws a TypeError, an
  object gives the value of its last entry for the key, anything else gives
  \<^verbatim>\<open>undefined\<close> for the keys read by this program.
\<close>

fun getProp :: "json \<Rightarrow> string \<Rightarrow> js_error + jsval" where
  "getProp JNull k = Inl TypeError"
| "getProp (JObj kvs) k = Inr (map_of (rev kvs) k)"
| "getProp (JBool b) k = Inr None"
| "getProp (JNum n) k = Inr None"
| "getProp (JStr s) k = Inr None"
| "getProp (JArr xs) k = Inr None"

definition is_boolean :: "jsval \<Rightarrow> bool" where
  "is_boolean v = (case v of Some (JBool b) \<Rightarrow> True | _ \<Rightarrow> False)"

definition is_ws :: "char \<Rightarrow> bool" where
  "is_ws c = (c \<in> set [CHR 0x09, CHR 0x0A, CHR 0x0B, CHR 0x0C, CHR 0x0D, CHR 0x20, CHR 0xA0])"

definition trim :: "string \<Rightarrow> string" where
  "trim s = rev (dropWhile is_ws (rev (dropWhile is_ws s)))"

definition toLowerChar :: "char \<Rightarrow> char" where
  "toLowerChar c =
     (let n = (of_char c :: nat)
      in if (65 \<le> n \<and> n \<le> 90) \<or> (192 \<le> n \<and> n \<le> 222 \<and> n \<noteq> 215)
         then char_of (n + 32) else c)"

definition toLowerCase :: "string \<Rightarrow> string" where
  "toLowerCase s = map toLowerChar s"

fun startsWith :: "string \<Rightarrow> string \<Rightarrow> bool" where
  "startsWith s [] = True"
| "startsWith [] (p # ps) = False"
| "startsWith (c # cs) (p # ps) = (c = p \<and> startsWith cs ps)"

fun includes_str :: "string \<Rightarrow> string \<Rightarrow> bool" where
  "includes_str [] sub = (sub = [])"
| "includes_str (c # cs) sub = (startsWith (c # cs) sub \<or> includes_str cs sub)"

text \<open>\<^verbatim>\<open>a || ''\<close> on an optional string.\<close>

definition or_empty :: "string option \<Rightarrow> string" where
  "or_empty v = (case v of None \<Rightarrow> [] | Some s \<Rightarrow> s)"

text \<open>\<^verbatim>\<open>options?.[i]\<close>: \<^verbatim>\<open>undefined\<close> without the array or out of its range.\<close>

definition option_at :: "string list option \<Rightarrow> nat \<Rightarrow> string option" where
  "option_at opts i =
     (case opts of None \<Rightarrow> None
      | Some xs \<Rightarrow> if i < length xs then Some (xs ! i) else None)"

section \<open>Effects and results\<close>

text \<open>
  What a handler does besides updating the component state: the toasts it shows, the calls
  it makes to the external judgment and generation services, and the remediation trigger.
  A handler returns the state after the state setters it reached, the effects in order,
  and the error it threw (if any).
\<close>

datatype tier = easy | medium | advanced

datatype qtype = mcq | written

datatype effect =
    Toast string
  | JudgeCall
  | GenerateCall string tier qtype
  | RemediationTrigger

record 's result =
  res_state :: 's
  res_effects :: "effect list"
  res_thrown :: "js_error option"

section \<open>AdaptivePracticeEngine.tsx\<close>

record Question =
  q_id :: int
  q_text :: string
  q_type :: qtype
  q_difficulty :: tier
  q_topic :: string
  q_options :: "string list option"
  q_correctAnswer :: "string option"
  q_expectedSteps :: "string list option"

record Answer =
  questionId :: int
  answer :: string
  isCorrect :: jsval
  timeSpent :: rat
  a_difficulty :: tier

record Performance =
  totalQuestions :: nat
  correctAnswers :: nat
  averageTime :: rat
  accuracy :: rat
  difficultyProgression :: "tier list"

record PracticeSession =
  ps_id :: int
  ps_topic :: string
  ps_questionType :: qtype
  startTime :: int
  endTime :: "int option"
  questions :: "Question list"
  answers :: "Answer list"
  performance :: Performance

record Topic =
  topic_id :: string
  topic_name :: string
  topic_difficulty :: tier
  questionCount :: nat

datatype phase = setup_phase | practicing | completed

text \<open>The \<^verbatim>\<open>performance\<close> state variable of the component.\<close>

record PerfState =
  correct :: nat
  total :: nat
  st_averageTime :: rat
  currentStreak :: nat

record practice_state =
  selectedTopic :: "Topic option"
  questionType :: qtype
  currentSession :: "PracticeSession option"
  currentQuestion :: "Question option"
  currentAnswer :: string
  selectedOption :: "nat option"
  questionStartTime :: "int option"
  sessionPhase :: phase
  difficulty :: tier
  perf :: PerfState

text \<open>
  The text part of a question (from the generation service or from the fallback bank) is
  an input: both branches of \<^verbatim>\<open>generateQuestion\<close> build the question from it in the
  same way, with the identifier taken from the clock and the type, difficulty and topic
  taken from the arguments.
\<close>

record content =
  c_text :: string
  c_options :: "string list option"
  c_correctAnswer :: "string option"
  c_expectedSteps :: "string list option"

definition generateQuestion :: "string \<Rightarrow> tier \<Rightarrow> qtype \<Rightarrow> content \<Rightarrow> int \<Rightarrow> Question" where
  "generateQuestion topic d ty c clock =
     \<lparr> q_id = clock, q_text = c_text c, q_type = ty, q_difficulty = d, q_topic = topic,
       q_options = c_options c, q_correctAnswer = c_correctAnswer c,
       q_expectedSteps = c_expectedSteps c \<rparr>"

text \<open>
  The outcome of the call to the judgment service inside the \<^verbatim>\<open>try\<close> of
  \<^verbatim>\<open>validateAnswer\<close>: anything that throws there (network failure, a response that is
  not ok, a body or a text that does not parse), or the value \<^verbatim>\<open>JSON.parse\<close> returned.
\<close>

datatype judge_outcome = JudgeFailed | JudgeParsed json

definition fallbackIsCorrect :: "Question \<Rightarrow> string \<Rightarrow> bool" where
  "fallbackIsCorrect q a =
     (if q_type q = mcq then q_correctAnswer q = Some a
      else includes_str (toLowerCase a) ''correct'')"

definition validateAnswer :: "Question \<Rightarrow> string \<Rightarrow> judge_outcome \<Rightarrow> json" where
  "validateAnswer q a out =
     (case out of
        JudgeParsed j \<Rightarrow> j
      | JudgeFailed \<Rightarrow>
          JObj [(''isCorrect'', JBool (fallbackIsCorrect q a)),
                (''feedback'', JStr (if fallbackIsCorrect q a then ''Great job!'' else ''Try again!'')),
                (''explanation'', JStr ''Check your work carefully.'')])"

record submit_env =
  now :: int
  judge :: judge_outcome
  next_content :: content
  gen_clock :: int
  next_clock :: int
  end_clock :: int

definition chosenAnswer :: "practice_state \<Rightarrow> Question \<Rightarrow> string" where
  "chosenAnswer s q =
     (if questionType s = mcq
      then (case selectedOption s of
              Some i \<Rightarrow> or_empty (option_at (q_options q) i)
            | None \<Rightarrow> [])
      else currentAnswer s)"

definition updatedPerformance :: "Performance \<Rightarrow> bool \<Rightarrow> rat \<Rightarrow> tier \<Rightarrow> Performance" where
  "updatedPerformance p ok t d =
     p \<lparr> totalQuestions := totalQuestions p + 1,
         correctAnswers := correctAnswers p + (if ok then 1 else 0),
         averageTime := (averageTime p + t) / 2,
         accuracy := of_nat (correctAnswers p + (if ok then 1 else 0))
                       / of_nat (totalQuestions p + 1) * 100,
         difficultyProgression := difficultyProgression p @ [d] \<rparr>"

text \<open>Lines 322 to 328: the adaptation of the difficulty state.\<close>

definition adaptDifficulty :: "rat \<Rightarrow> tier \<Rightarrow> tier" where
  "adaptDifficulty acc d =
     (if acc > 80 \<and> d \<noteq> advanced then advanced
      else if acc < 60 \<and> d \<noteq> easy then easy
      else d)"

definition endSession :: "int \<Rightarrow> PracticeSession \<Rightarrow> practice_state \<Rightarrow> practice_state" where
  "endSession clock sess s =
     s \<lparr> currentSession := Some (sess \<lparr> endTime := Some clock \<rparr>),
         sessionPhase := completed \<rparr>"

definition updatedSession ::
  "PracticeSession \<Rightarrow> Question \<Rightarrow> string \<Rightarrow> jsval \<Rightarrow> rat \<Rightarrow> tier \<Rightarrow> PracticeSession" where
  "updatedSession sess q a ic spent d =
     sess \<lparr> questions := questions sess @ [q],
            answers := answers sess @
              [\<lparr> questionId = q_id q, answer = a, isCorrect = ic,
                 timeSpent = spent, a_difficulty = d \<rparr>],
            performance := updatedPerformance (performance sess) (truthy ic) spent d \<rparr>"

text \<open>
  \<^verbatim>\<open>submitAnswer\<close>. The variables \<^verbatim>\<open>difficulty\<close>, \<^verbatim>\<open>currentSession\<close> and
  \<^verbatim>\<open>performance\<close> read in the body are the constants of the render that created the
  handler, so every read below is a read of the state \<open>s\<close> the handler started in, also
  after a setter has been called.
\<close>

definition submitAnswer :: "submit_env \<Rightarrow> practice_state \<Rightarrow> practice_state result" where
  "submitAnswer env s =
     (case (currentQuestion s, currentSession s, questionStartTime s) of
        (Some q, Some sess, Some t0) \<Rightarrow>
          let spent = of_int (now env - t0) / 1000;
              a = chosenAnswer s q
          in if trim a = []
             then \<lparr> res_state = s, res_effects = [Toast ''Please provide an answer''],
                    res_thrown = None \<rparr>
             else
               (case getProp (validateAnswer q a (judge env)) ''isCorrect'' of
                  Inl e \<Rightarrow> \<lparr> res_state = s, res_effects = [JudgeCall], res_thrown = Some e \<rparr>
                | Inr ic \<Rightarrow>
                    let us = updatedSession sess q a ic spent (difficulty s);
                        p = performance us;
                        s1 = s \<lparr> currentSession := Some us,
                                perf := \<lparr> correct = correctAnswers p, total = totalQuestions p,
                                          st_averageTime = averageTime p,
                                          currentStreak =
                                            (if truthy ic then currentStreak (perf s) + 1
                                             else 0) \<rparr>,
                                difficulty := adaptDifficulty (accuracy p) (difficulty s) \<rparr>;
                        fb = Toast (if truthy ic then ''Correct!'' else ''Incorrect'')
                    in if totalQuestions p \<ge> 10
                       then \<lparr> res_state = endSession (end_clock env) us s1,
                              res_effects = [JudgeCall, fb, Toast ''Practice session completed!''],
                              res_thrown = None \<rparr>
                       else
                         (case selectedTopic s of
                            None \<Rightarrow> \<lparr> res_state = s1, res_effects = [JudgeCall, fb],
                                      res_thrown = Some TypeError \<rparr>
                          | Some tp \<Rightarrow>
                              \<lparr> res_state = s1
                                  \<lparr> currentQuestion :=
                                      Some (generateQuestion (topic_id tp) (difficulty s)
                                              (questionType s) (next_content env) (gen_clock env)),
                                    questionStartTime := Some (next_clock env),
                                    currentAnswer := [],
                                    selectedOption := None \<rparr>,
                                res_effects =
                                  [JudgeCall, fb,
                                   GenerateCall (topic_id tp) (difficulty s) (questionType s)],
                                res_thrown = None \<rparr>))
      | _ \<Rightarrow> \<lparr> res_state = s, res_effects = [], res_thrown = None \<rparr>)"

record start_env =
  id_clock :: int
  start_clock :: int
  first_content :: content
  first_gen_clock :: int
  first_clock :: int

definition startSession :: "start_env \<Rightarrow> practice_state \<Rightarrow> practice_state result" where
  "startSession env s =
     (case selectedTopic s of
        None \<Rightarrow> \<lparr> res_state = s, res_effects = [], res_thrown = None \<rparr>
      | Some tp \<Rightarrow>
          \<lparr> res_state = s
              \<lparr> currentSession := Some
                  \<lparr> ps_id = id_clock env, ps_topic = topic_name tp,
                    ps_questionType = questionType s, startTime = start_clock env,
                    endTime = None, questions = [], answers = [],
                    performance =
                      \<lparr> totalQuestions = 0, correctAnswers = 0, averageTime = 0,
                        accuracy = 0, difficultyProgression = [] \<rparr> \<rparr>,
                sessionPhase := practicing,
                currentQuestion :=
                  Some (generateQuestion (topic_id tp) (difficulty s) (questionType s)
                          (first_content env) (first_gen_clock env)),
                questionStartTime := Some (first_clock env) \<rparr>,
            res_effects = [GenerateCall (topic_id tp) (difficulty s) (questionType s)],
            res_thrown = None \<rparr>)"

text \<open>The initial values of the state variables (the \<^verbatim>\<open>useState\<close> defaults).\<close>

definition practice_init :: practice_state where
  "practice_init =
     \<lparr> selectedTopic = None, questionType = mcq, currentSession = None,
       currentQuestion = None, currentAnswer = [], selectedOption = None,
       questionStartTime = None, sessionPhase = setup_phase, difficulty = easy,
       perf = \<lparr> correct = 0, total = 0, st_averageTime = 0, currentStreak = 0 \<rparr> \<rparr>"

text \<open>
  The controls of the rendered view. Each phase renders its own controls, so an event is
  applied only in the phase whose view offers it; elsewhere the control does not exist
  and the state stays as it is.
\<close>

datatype practice_event =
    SelectTopic Topic
  | SetQuestionType qtype
  | StartSession start_env
  | SelectOption nat
  | TypeAnswer string
  | Submit submit_env
  | PracticeAgain
  | ChooseDifferentTopic

definition zero_perf :: PerfState where
  "zero_perf = \<lparr> correct = 0, total = 0, st_averageTime = 0, currentStreak = 0 \<rparr>"

definition in_practice_view :: "practice_state \<Rightarrow> bool" where
  "in_practice_view s = (sessionPhase s = practicing \<and> currentQuestion s \<noteq> None)"

definition in_completed_view :: "practice_state \<Rightarrow> bool" where
  "in_completed_view s = (sessionPhase s = completed \<and> currentSession s \<noteq> None)"

fun practice_step :: "practice_state \<Rightarrow> practice_event \<Rightarrow> practice_state" where
  "practice_step s (SelectTopic t) =
     (if sessionPhase s = setup_phase then s \<lparr> selectedTopic := Some t \<rparr> else s)"
| "practice_step s (SetQuestionType ty) =
     (if sessionPhase s = setup_phase then s \<lparr> questionType := ty \<rparr> else s)"
| "practice_step s (StartSession env) =
     (if sessionPhase s = setup_phase \<and> selectedTopic s \<noteq> None
      then res_state (startSession env s) else s)"
| "practice_step s (SelectOption i) =
     (if in_practice_view s \<and> questionType s = mcq
      then s \<lparr> selectedOption := Some i \<rparr> else s)"
| "practice_step s (TypeAnswer a) =
     (if in_practice_view s \<and> questionType s \<noteq> mcq
      then s \<lparr> currentAnswer := a \<rparr> else s)"
| "practice_step s (Submit env) =
     (if in_practice_view s then res_state (submitAnswer env s) else s)"
| "practice_step s PracticeAgain =
     (if in_completed_view s
      then s \<lparr> sessionPhase := setup_phase, currentSession := None, perf := zero_perf \<rparr>
      else s)"
| "practice_step s ChooseDifferentTopic =
     (if in_completed_view s
      then s \<lparr> sessionPhase := setup_phase, currentSession := None, selectedTopic := None,
               perf := zero_perf \<rparr>
      else s)"

definition practice_run :: "practice_event list \<Rightarrow> practice_state" where
  "practice_run evs = foldl practice_step practice_init evs"

definition answered :: "practice_state \<Rightarrow> nat" where
  "answered s = (case currentSession s of None \<Rightarrow> 0 | Some sess \<Rightarrow> length (answers sess))"

text \<open>
  The difficulty adapter as the specification words it: one tier up above the upper
  threshold, one tier down below the lower threshold, otherwise unchanged.
\<close>

fun tier_up :: "tier \<Rightarrow> tier" where
  "tier_up easy = medium"
| "tier_up medium = advanced"
| "tier_up advanced = advanced"

fun tier_down :: "tier \<Rightarrow> tier" where
  "tier_down easy = easy"
| "tier_down medium = easy"
| "tier_down advanced = medium"

definition spec_adaptDifficulty :: "rat \<Rightarrow> tier \<Rightarrow> tier" where
  "spec_adaptDifficulty acc d =
     (if acc > 80 \<and> d \<noteq> advanced then tier_up d
      else if acc < 60 \<and> d \<noteq> easy then tier_down d
      else d)"

text \<open>The true running mean of the elapsed times of the recorded attempts.\<close>

definition mean_time :: "Answer list \<Rightarrow> rat" where
  "mean_time xs = sum_list (map timeSpent xs) / of_nat (length xs)"

subsection \<open>Concrete inputs\<close>

definition demo_topic :: Topic where
  "demo_topic =
     \<lparr> topic_id = ''linear-systems'', topic_name = ''Linear Systems'',
       topic_difficulty = easy, questionCount = 12 \<rparr>"

definition demo_content :: content where
  "demo_content =
     \<lparr> c_text = ''If f(x) = 2x + 3, what is f(5)?'',
       c_options = Some [''10'', ''13'', ''15'', ''17''],
       c_correctAnswer = Some ''13'', c_expectedSteps = None \<rparr>"

definition demo_start_env :: start_env where
  "demo_start_env =
     \<lparr> id_clock = 0, start_clock = 0, first_content = demo_content,
       first_gen_clock = 1, first_clock = 1000 \<rparr>"

text \<open>A session just started on the demo topic, with the second option selected.\<close>

definition demo_started :: practice_state where
  "demo_started =
     practice_step (practice_step (practice_step practice_init (SelectTopic demo_topic))
        (StartSession demo_start_env)) (SelectOption 1)"

text \<open>
  The judgment service is unreachable; the \<open>n\<close>-th answer is submitted ten seconds after
  its question was issued.
\<close>

definition demo_env_at :: "nat \<Rightarrow> submit_env" where
  "demo_env_at n =
     \<lparr> now = 10000 * int n + 1000, judge = JudgeFailed, next_content = demo_content,
       gen_clock = 10000 * int n + 1000, next_clock = 10000 * int n + 1000,
       end_clock = 10000 * int n + 1000 \<rparr>"

definition demo_env :: submit_env where
  "demo_env = demo_env_at 1"

definition demo_question :: Question where
  "demo_question = generateQuestion ''linear-systems'' easy mcq demo_content 1"

text \<open>Nine answered questions, and the second option selected for the tenth.\<close>

definition demo_nine :: "practice_event list" where
  "demo_nine =
     [SelectTopic demo_topic, StartSession demo_start_env]
     @ concat (map (\<lambda>n. [SelectOption 1, Submit (demo_env_at n)]) [1..<10])
     @ [SelectOption 1]"

text \<open>The demo session with no option selected: the chosen answer is the empty string.\<close>

definition demo_blank :: practice_state where
  "demo_blank = demo_started \<lparr> selectedOption := None \<rparr>"


text \<open>The counters of a session agree with its answer log.\<close>

definition counters_match :: "PracticeSession \<Rightarrow> bool" where
  "counters_match sess =
     (totalQuestions (performance sess) = length (answers sess) \<and>
      correctAnswers (performance sess)
        = length (filter (\<lambda>a. truthy (isCorrect a)) (answers sess)))"

text \<open>The demo session with the first option selected, which is not the expected one.\<close>

definition demo_wrong :: practice_state where
  "demo_wrong = demo_started \<lparr> selectedOption := Some 0 \<rparr>"

definition no_generate :: "effect list \<Rightarrow> bool" where
  "no_generate effs = (\<forall>e \<in> set effs. case e of GenerateCall t d ty \<Rightarrow> False | _ \<Rightarrow> True)"

text \<open>
  The invariant of the practice engine: the counter of the session is the length of its
  answer log, and a session still in the practising phase has fewer than ten answers.
\<close>

definition practice_inv :: "practice_state \<Rightarrow> bool" where
  "practice_inv s =
     (case currentSession s of
        None \<Rightarrow> True
      | Some sess \<Rightarrow>
          totalQuestions (performance sess) = length (answers sess) \<and>
          (if sessionPhase s = practicing then length (answers sess) < 10
           else length (answers sess) \<le> 10))"

section \<open>ExamSimulator.tsx\<close>

datatype exam_level = level_easy | level_medium | level_hard

record ExamQuestion =
  eq_id :: string
  eq_text :: string
  eq_type :: qtype
  marks :: rat
  timeLimit :: int
  eq_options :: "string list option"
  eq_correctAnswer :: "string option"
  eq_expectedSteps :: "string list option"
  eq_topic :: string
  eq_difficulty :: exam_level

record ExamAnswer =
  ea_questionId :: string
  ea_answer :: string
  ea_timeSpent :: rat
  ea_isCorrect :: bool
  marksObtained :: rat

text \<open>
  \<open>ep_accuracy\<close> is \<open>None\<close> where the division by \<^verbatim>\<open>totalMarks\<close> gives no finite
  number (a total of zero). \<^verbatim>\<open>topicPerformance\<close> is the object the session starts with.
\<close>

record ExamPerformance =
  totalMarks :: rat
  obtainedMarks :: rat
  ep_accuracy :: "rat option"
  ep_averageTime :: rat
  timeManagement :: rat
  topicPerformance :: "(string \<times> nat \<times> nat \<times> rat) list"

record ExamSession =
  es_id :: int
  examType :: string
  es_startTime :: int
  es_endTime :: "int option"
  totalTime :: int
  es_questions :: "ExamQuestion list"
  es_answers :: "ExamAnswer list"
  es_performance :: ExamPerformance

record ExamType =
  et_id :: string
  et_name :: string
  et_description :: string
  duration :: int
  et_totalMarks :: rat
  et_questionCount :: nat
  et_topics :: "string list"
  et_difficulty :: exam_level

definition EXAM_TYPES :: "ExamType list" where
  "EXAM_TYPES =
     [\<lparr> et_id = ''unit-test'', et_name = ''Unit Test'',
         et_description = ''Single topic assessment (30 minutes)'',
         duration = 30, et_totalMarks = 25, et_questionCount = 10,
         et_topics = [''Quadratic Equations''], et_difficulty = level_medium \<rparr>,
      \<lparr> et_id = ''mid-term'', et_name = ''Mid-Term Exam'',
         et_description = ''Multiple topics assessment (90 minutes)'',
         duration = 90, et_totalMarks = 50, et_questionCount = 20,
         et_topics = [''Quadratic Equations'', ''Linear Systems'', ''Functions''],
         et_difficulty = level_medium \<rparr>,
      \<lparr> et_id = ''final-exam'', et_name = ''Final Exam'',
         et_description = ''Complete syllabus assessment (180 minutes)'',
         duration = 180, et_totalMarks = 100, et_questionCount = 40,
         et_topics = [''Quadratic Equations'', ''Linear Systems'', ''Functions'',
                      ''Trigonometry'', ''Probability''],
         et_difficulty = level_hard \<rparr>,
      \<lparr> et_id = ''board-practice'', et_name = ''Board Exam Practice'',
         et_description = ''Real board exam format (210 minutes)'',
         duration = 210, et_totalMarks = 80, et_questionCount = 35,
         et_topics = [''All Topics''], et_difficulty = level_hard \<rparr>]"

datatype exam_phase = exam_setup | exam | exam_completed

record exam_state =
  selectedExamType :: "ExamType option"
  x_currentSession :: "ExamSession option"
  currentQuestionIndex :: nat
  x_currentAnswer :: string
  x_selectedOption :: "nat option"
  examPhase :: exam_phase
  timeRemaining :: int
  isPaused :: bool
  showAnswers :: bool
  x_questionStartTime :: "int option"
  examStartTime :: "int option"
  starting :: "ExamType list"

text \<open>
  \<open>starting\<close> is no state variable of the component: it lists the calls of
  \<^verbatim>\<open>startExam\<close> that wait for their questions, each with the exam type that the render
  of its click had selected.
\<close>

definition exam_init :: exam_state where
  "exam_init =
     \<lparr> selectedExamType = None, x_currentSession = None, currentQuestionIndex = 0,
       x_currentAnswer = [], x_selectedOption = None, examPhase = exam_setup,
       timeRemaining = 0, isPaused = False, showAnswers = False,
       x_questionStartTime = None, examStartTime = None, starting = [] \<rparr>"

text \<open>
  \<^verbatim>\<open>endExam\<close>, called from a handler or from the interval callback: \<open>snap\<close> is the
  \<^verbatim>\<open>currentSession\<close> constant of the render that created the caller. Without a session
  it returns at once; otherwise it stores that session with its end time (overwriting a
  session set earlier in the same handler) and completes the exam.
\<close>

definition endExam :: "ExamSession option \<Rightarrow> int \<Rightarrow> exam_state \<Rightarrow> exam_state \<times> effect list" where
  "endExam snap clock s =
     (case snap of
        None \<Rightarrow> (s, [])
      | Some sess \<Rightarrow>
          (s \<lparr> x_currentSession := Some (sess \<lparr> es_endTime := Some clock \<rparr>),
              examPhase := exam_completed \<rparr>,
           [Toast ''Exam completed!'']))"

text \<open>
  The timer effect: while the phase is \<^verbatim>\<open>exam\<close>, the remaining time is positive and the
  exam is not paused, an interval fires every second and runs the updater below.
\<close>

definition timer_running :: "exam_state \<Rightarrow> bool" where
  "timer_running s = (examPhase s = exam \<and> timeRemaining s > 0 \<and> \<not> isPaused s)"

definition tick :: "ExamSession option \<Rightarrow> int \<Rightarrow> exam_state \<Rightarrow> exam_state" where
  "tick snap clock s =
     (if timer_running s
      then (if timeRemaining s \<le> 1
            then (fst (endExam snap clock s)) \<lparr> timeRemaining := 0 \<rparr>
            else s \<lparr> timeRemaining := timeRemaining s - 1 \<rparr>)
      else s)"

record exam_start_env =
  xs_id_clock :: int
  xs_clock :: int
  xs_questions :: "ExamQuestion list"

text \<open>
  \<^verbatim>\<open>startExam\<close> is asynchronous. At the click it returns when no exam type is selected;
  otherwise it waits for the generated questions. When they arrive it writes the session,
  the phase, the remaining time and the two start times, whatever the phase is by then:
  it reads no state after the wait, and the exam type is the one of the click.
\<close>

definition startExam_click :: "exam_state \<Rightarrow> exam_state" where
  "startExam_click s =
     (case selectedExamType s of
        None \<Rightarrow> s
      | Some et \<Rightarrow> s \<lparr> starting := starting s @ [et] \<rparr>)"

definition startExam_resume :: "exam_start_env \<Rightarrow> ExamType \<Rightarrow> exam_state \<Rightarrow> exam_state" where
  "startExam_resume env et s =
     s \<lparr> x_currentSession := Some
           \<lparr> es_id = xs_id_clock env, examType = et_name et,
             es_startTime = xs_clock env, es_endTime = None, totalTime = duration et,
             es_questions = xs_questions env, es_answers = [],
             es_performance =
               \<lparr> totalMarks = et_totalMarks et, obtainedMarks = 0,
                 ep_accuracy = Some 0, ep_averageTime = 0, timeManagement = 0,
                 topicPerformance = [] \<rparr> \<rparr>,
         examPhase := exam,
         timeRemaining := duration et * 60,
         examStartTime := Some (xs_clock env),
         x_questionStartTime := Some (xs_clock env) \<rparr>"

text \<open>
  The local validation of the exam. \<open>rnd\<close> is the value \<^verbatim>\<open>Math.random()\<close> returns,
  a number from 0 up to but not including 1; it is drawn only for a written answer
  that does not contain the word.
\<close>

definition examIsCorrect :: "ExamQuestion \<Rightarrow> string \<Rightarrow> rat \<Rightarrow> bool" where
  "examIsCorrect q a rnd =
     (if eq_type q = mcq then eq_correctAnswer q = Some a
      else includes_str (toLowerCase a) ''correct'' \<or> rnd > 1 / 2)"

record exam_submit_env =
  x_now :: int
  random :: rat
  x_next_clock :: int
  x_end_clock :: int

definition examChosenAnswer :: "exam_state \<Rightarrow> ExamQuestion \<Rightarrow> string" where
  "examChosenAnswer s q =
     (if eq_type q = mcq
      then (case x_selectedOption s of
              Some i \<Rightarrow> or_empty (option_at (eq_options q) i)
            | None \<Rightarrow> [])
      else x_currentAnswer s)"

definition examUpdatedSession ::
  "ExamSession \<Rightarrow> ExamQuestion \<Rightarrow> string \<Rightarrow> bool \<Rightarrow> rat \<Rightarrow> ExamSession" where
  "examUpdatedSession sess q a ok spent =
     (let m = (if ok then marks q else 0); p = es_performance sess
      in sess \<lparr> es_answers := es_answers sess @
                  [\<lparr> ea_questionId = eq_id q, ea_answer = a, ea_timeSpent = spent,
                     ea_isCorrect = ok, marksObtained = m \<rparr>],
                es_performance := p
                  \<lparr> obtainedMarks := obtainedMarks p + m,
                    ep_accuracy :=
                      (if totalMarks p = 0 then None
                       else Some ((obtainedMarks p + m) / totalMarks p * 100)),
                    ep_averageTime := (ep_averageTime p + spent) / 2 \<rparr> \<rparr>)"

definition examSubmitAnswer :: "exam_submit_env \<Rightarrow> exam_state \<Rightarrow> exam_state result" where
  "examSubmitAnswer env s =
     (case (x_currentSession s, x_questionStartTime s) of
        (Some sess, Some t0) \<Rightarrow>
          if currentQuestionIndex s \<ge> length (es_questions sess)
          then \<lparr> res_state = s, res_effects = [], res_thrown = Some TypeError \<rparr>
          else
            let q = es_questions sess ! currentQuestionIndex s;
                spent = of_int (x_now env - t0) / 1000;
                a = examChosenAnswer s q
            in if trim a = []
               then \<lparr> res_state = s, res_effects = [Toast ''Please provide an answer''],
                      res_thrown = None \<rparr>
               else
                 let us = examUpdatedSession sess q a (examIsCorrect q a (random env)) spent;
                     s1 = s \<lparr> x_currentSession := Some us \<rparr>
                 in if currentQuestionIndex s + 1 < length (es_questions sess)
                    then \<lparr> res_state = s1
                             \<lparr> currentQuestionIndex := currentQuestionIndex s + 1,
                               x_currentAnswer := [],
                               x_selectedOption := None,
                               x_questionStartTime := Some (x_next_clock env) \<rparr>,
                           res_effects = [], res_thrown = None \<rparr>
                    else \<lparr> res_state = fst (endExam (x_currentSession s) (x_end_clock env) s1),
                           res_effects = snd (endExam (x_currentSession s) (x_end_clock env) s1),
                           res_thrown = None \<rparr>
      | _ \<Rightarrow> \<lparr> res_state = s, res_effects = [], res_thrown = None \<rparr>)"

text \<open>
  The controls of the exam views, the timer, and the arrival of the questions of the
  \<open>i\<close>-th waiting start. The Start button is part of the setup view and stays enabled
  while a start waits, so it can be clicked again.
\<close>

datatype exam_event =
    SelectExamType nat
  | StartExam
  | QuestionsArrive nat exam_start_env
  | TogglePause
  | ExamSelectOption nat
  | ExamTypeAnswer string
  | ExamSubmit exam_submit_env
  | Tick "ExamSession option" int
  | TakeAnotherExam
  | ToggleShowAnswers

definition in_exam_view :: "exam_state \<Rightarrow> bool" where
  "in_exam_view s = (examPhase s = exam \<and> x_currentSession s \<noteq> None)"

definition in_exam_completed_view :: "exam_state \<Rightarrow> bool" where
  "in_exam_completed_view s = (examPhase s = exam_completed \<and> x_currentSession s \<noteq> None)"

fun exam_step :: "exam_state \<Rightarrow> exam_event \<Rightarrow> exam_state" where
  "exam_step s (SelectExamType i) =
     (if examPhase s = exam_setup \<and> i < length EXAM_TYPES
      then s \<lparr> selectedExamType := Some (EXAM_TYPES ! i) \<rparr> else s)"
| "exam_step s StartExam =
     (if examPhase s = exam_setup then startExam_click s else s)"
| "exam_step s (QuestionsArrive i env) =
     (if i < length (starting s)
      then startExam_resume env (starting s ! i)
             (s \<lparr> starting := take i (starting s) @ drop (Suc i) (starting s) \<rparr>)
      else s)"
| "exam_step s TogglePause =
     (if in_exam_view s then s \<lparr> isPaused := \<not> isPaused s \<rparr> else s)"
| "exam_step s (ExamSelectOption i) =
     (if in_exam_view s then s \<lparr> x_selectedOption := Some i \<rparr> else s)"
| "exam_step s (ExamTypeAnswer a) =
     (if in_exam_view s then s \<lparr> x_currentAnswer := a \<rparr> else s)"
| "exam_step s (ExamSubmit env) =
     (if in_exam_view s then res_state (examSubmitAnswer env s) else s)"
| "exam_step s (Tick snap clock) = tick snap clock s"
| "exam_step s TakeAnotherExam =
     (if in_exam_completed_view s
      then s \<lparr> examPhase := exam_setup, x_currentSession := None,
               currentQuestionIndex := 0, selectedExamType := None \<rparr>
      else s)"
| "exam_step s ToggleShowAnswers =
     (if in_exam_completed_view s then s \<lparr> showAnswers := \<not> showAnswers s \<rparr> else s)"

definition exam_run :: "exam_event list \<Rightarrow> exam_state" where
  "exam_run evs = foldl exam_step exam_init evs"

subsection \<open>Concrete inputs\<close>

definition demo_written :: ExamQuestion where
  "demo_written =
     \<lparr> eq_id = ''q1'', eq_text = ''Solve the quadratic equation: x^2 - 9 = 0'',
       eq_type = written, marks = 3, timeLimit = 3, eq_options = None,
       eq_correctAnswer = None, eq_expectedSteps = Some [''x^2 = 9'', ''x = 3 or x = -3''],
       eq_topic = ''Quadratic Equations'', eq_difficulty = level_medium \<rparr>"

definition demo_exam_start :: exam_start_env where
  "demo_exam_start =
     \<lparr> xs_id_clock = 0, xs_clock = 0, xs_questions = [demo_written, demo_written] \<rparr>"

text \<open>A unit test (30 minutes) just started.\<close>

definition demo_exam_events :: "exam_event list" where
  "demo_exam_events = [SelectExamType 0, StartExam, QuestionsArrive 0 demo_exam_start]"

definition demo_exam :: exam_state where
  "demo_exam = exam_run demo_exam_events"

text \<open>
  A sequence of ticks. Each tick comes from the interval installed by the latest render,
  whose session constant is the session that render saw; while the exam runs that session
  exists.
\<close>

fun ticks :: "(ExamSession \<times> int) list \<Rightarrow> exam_state \<Rightarrow> exam_state" where
  "ticks [] s = s"
| "ticks ((sn, c) # xs) s = ticks xs (tick (Some sn) c s)"

text \<open>The remaining time of a reachable state is not negative, and neither is a duration.\<close>

definition exam_inv :: "exam_state \<Rightarrow> bool" where
  "exam_inv s =
     (0 \<le> timeRemaining s \<and>
      (case selectedExamType s of None \<Rightarrow> True | Some et \<Rightarrow> 0 \<le> duration et) \<and>
      list_all (\<lambda>et. 0 \<le> duration et) (starting s))"

text \<open>The events that are the arrival of the questions of a waiting start.\<close>

fun is_arrival :: "exam_event \<Rightarrow> bool" where
  "is_arrival (QuestionsArrive i env) = True"
| "is_arrival ev = False"

definition demo_ticks :: "nat \<Rightarrow> exam_event list" where
  "demo_ticks n = replicate n (Tick (x_currentSession demo_exam) 0)"

definition demo_snaps :: "nat \<Rightarrow> (ExamSession \<times> int) list" where
  "demo_snaps n = replicate n (the (x_currentSession demo_exam), 0)"

text \<open>A written answer to the first question of the demo exam, and two random draws.\<close>

definition demo_exam_answered :: exam_state where
  "demo_exam_answered = exam_step demo_exam (ExamTypeAnswer ''x = 3'')"

definition demo_exam_env :: "rat \<Rightarrow> exam_submit_env" where
  "demo_exam_env r = \<lparr> x_now = 10000, random = r, x_next_clock = 10000, x_end_clock = 10000 \<rparr>"


text \<open>The demo exam paused, and the demo exam in its last second.\<close>

definition demo_paused :: "exam_event list" where
  "demo_paused = demo_exam_events @ [TogglePause]"

definition demo_last_second :: "exam_event list" where
  "demo_last_second = demo_exam_events @ demo_ticks 1799"

text \<open>
  Start clicked twice while the questions are generated: the questions of the first start
  arrive and open the exam, and five seconds pass. Then the questions of the second start
  arrive, with the exam running or paused.
\<close>

definition demo_double_start :: "exam_event list" where
  "demo_double_start =
     [SelectExamType 0, StartExam, StartExam, QuestionsArrive 0 demo_exam_start]
     @ demo_ticks 5"

definition demo_double_start_paused :: "exam_event list" where
  "demo_double_start_paused = demo_double_start @ [TogglePause]"

definition demo_second_arrival :: exam_event where
  "demo_second_arrival = QuestionsArrive 0 (demo_exam_start \<lparr> xs_id_clock := 5000, xs_clock := 5000 \<rparr>)"

section \<open>AIPoweredWhiteboard.tsx\<close>

text \<open>
  The fields of a validation are kept as JavaScript values: on the handwriting path they
  are the properties of the parsed reply, stored as they are. Of the state of the
  component, the variables the two submit handlers read or write are modelled.
\<close>

record ValidationResult =
  v_isCorrect :: jsval
  errorType :: jsval
  v_feedback :: jsval
  encouragement :: jsval

record Step =
  step_id :: int
  step_content :: jsval
  validation :: "ValidationResult option"
  timestamp :: int

record wb_state =
  wb_question :: string
  currentStep :: string
  steps :: "Step list"
  showExplanation :: bool

definition wb_init :: wb_state where
  "wb_init = \<lparr> wb_question = [], currentStep = [], steps = [], showExplanation = False \<rparr>"

text \<open>\<^verbatim>\<open>a || b\<close>.\<close>

definition js_or :: "jsval \<Rightarrow> jsval \<Rightarrow> jsval" where
  "js_or a b = (if truthy a then a else b)"

text \<open>The local validator \<^verbatim>\<open>validateStep\<close> (the superscript two is the code unit 0xB2).\<close>

definition validateStep :: "string \<Rightarrow> string \<Rightarrow> ValidationResult" where
  "validateStep step questionText =
     (let stepLower = trim (toLowerCase step);
          example = includes_str questionText ''2x = 7 - (4)^2 + 16''
      in if example \<and> includes_str stepLower ''2x = 7 - 16 + 16'' then
           \<lparr> v_isCorrect = Some (JBool True), errorType = None,
             v_feedback = Some (JStr (''Perfect! You correctly calculated (4)'' @ [CHR 0xB2]
               @ '' = 16 and maintained the order of operations.'')),
             encouragement = Some (JStr ''Great start! Keep going with the next step.'') \<rparr>
         else if example \<and> (includes_str stepLower ''2x = 9 + 16'' \<or> includes_str stepLower ''2x = 9'') then
           \<lparr> v_isCorrect = Some (JBool False), errorType = Some (JStr ''calculation''),
             v_feedback = Some (JStr ''Calculation error: 7 - 16 = -9, not 9. Remember that 7 - 16 gives a negative result.''),
             encouragement = Some (JStr ''Don't worry, calculation errors happen! Try redoing the subtraction step.'') \<rparr>
         else if example \<and> includes_str stepLower ''2x = 7 + 16 + 16'' then
           \<lparr> v_isCorrect = Some (JBool False), errorType = Some (JStr ''conceptual''),
             v_feedback = Some (JStr (''Conceptual error: You need to calculate (4)'' @ [CHR 0xB2]
               @ '' first, then apply the negative sign. (4)'' @ [CHR 0xB2] @ '' = 16, so -(4)''
               @ [CHR 0xB2] @ '' = -16.'')),
             encouragement = Some (JStr ''Good effort! Remember the order of operations: parentheses and exponents first.'') \<rparr>
         else if length step < 3 then
           \<lparr> v_isCorrect = Some (JBool False), errorType = Some (JStr ''syntax''),
             v_feedback = Some (JStr ''Please write a more complete step showing your work.''),
             encouragement = Some (JStr ''Take your time and show each calculation clearly.'') \<rparr>
         else
           \<lparr> v_isCorrect = Some (JBool True), errorType = None,
             v_feedback = Some (JStr ''This step looks good! Make sure to double-check your arithmetic.''),
             encouragement = Some (JStr ''You're doing well! Continue with your solution.'') \<rparr>)"

text \<open>
  The outcome of the request in \<^verbatim>\<open>validateStepWithAI\<close>: no API key (it throws before any
  request), a request that fails (network, status, body), or the text of the reply
  together with what \<^verbatim>\<open>JSON.parse\<close> makes of it (\<open>None\<close> when it throws).
\<close>

datatype ai_outcome = NoApiKey | AiFailed | AiText string "json option"

definition lexicalVerdict :: "string \<Rightarrow> ValidationResult" where
  "lexicalVerdict resultText =
     (let ok = includes_str (toLowerCase resultText) ''correct''
                 \<or> includes_str (toLowerCase resultText) ''right''
      in \<lparr> v_isCorrect = Some (JBool ok),
           errorType = (if ok then Some JNull else Some (JStr ''calculation'')),
           v_feedback = Some (JStr (take 200 resultText
                           @ (if length resultText > 200 then ''...'' else []))),
           encouragement = Some (JStr ''Keep working through the problem step by step!'') \<rparr>)"

definition validateStepWithAI :: "ai_outcome \<Rightarrow> js_error + ValidationResult" where
  "validateStepWithAI out =
     (case out of
        NoApiKey \<Rightarrow> Inl ApiError
      | AiFailed \<Rightarrow> Inl ApiError
      | AiText resultText parsed \<Rightarrow>
          (case parsed of
             None \<Rightarrow> Inr (lexicalVerdict resultText)
           | Some j \<Rightarrow>
               (case (getProp j ''isCorrect'', getProp j ''errorType'',
                      getProp j ''feedback'', getProp j ''encouragement'') of
                  (Inr c, Inr e, Inr f, Inr g) \<Rightarrow>
                    Inr \<lparr> v_isCorrect = js_or c (Some (JBool False)),
                          errorType = js_or e (Some JNull),
                          v_feedback = js_or f (Some (JStr ''I couldn't analyze this step properly.'')),
                          encouragement = js_or g (Some (JStr ''Keep trying! You're learning.'')) \<rparr>
                | _ \<Rightarrow> Inr (lexicalVerdict resultText))))"

record wb_env =
  ai :: ai_outcome
  wb_id_clock :: int
  wb_clock :: int

text \<open>\<^verbatim>\<open>handleStepValidation\<close> (toast titles are given without their pictograph).\<close>

definition handleStepValidation :: "wb_env \<Rightarrow> wb_state \<Rightarrow> wb_state result" where
  "handleStepValidation env s =
     (if trim (currentStep s) = []
      then \<lparr> res_state = s, res_effects = [Toast ''Empty Step''], res_thrown = None \<rparr>
      else
        let call = (if ai env = NoApiKey then [] else [JudgeCall]);
            v = (case validateStepWithAI (ai env) of
                   Inr v \<Rightarrow> v
                 | Inl e \<Rightarrow> validateStep (currentStep s) (wb_question s));
            title = (case validateStepWithAI (ai env) of
                       Inr v \<Rightarrow> (if truthy (v_isCorrect v) then ''Correct Step!''
                                  else ''Let's Refine This Step'')
                     | Inl e \<Rightarrow> ''Step Checked (Offline Mode)'');
            newStep = \<lparr> step_id = wb_id_clock env, step_content = Some (JStr (currentStep s)),
                        validation = Some v, timestamp = wb_clock env \<rparr>
        in \<lparr> res_state = s \<lparr> steps := steps s @ [newStep], currentStep := [] \<rparr>,
             res_effects = [Toast ''Validating...''] @ call @ [Toast title],
             res_thrown = None \<rparr>)"

text \<open>
  The handwriting path. \<open>image\<close> is \<open>None\<close> when there is no canvas or no line image.
  \<open>VlmResult j\<close> is the parsed reply of the vision model; \<open>VlmFailed\<close> is any failure
  of that request, answered by the fixed OCR fallback result.
\<close>

datatype vlm_outcome = VlmFailed | VlmResult json

definition ocr_fallback_result :: json where
  "ocr_fallback_result =
     JObj [(''extractedStep'', JStr ''OCR extracted step (implement with Tesseract.js)''),
           (''isCorrect'', JBool False),
           (''errorType'', JStr ''ocr-fallback''),
           (''feedback'', JStr ''VLM failed, used OCR fallback. Please check your step.''),
           (''encouragement'', JStr ''Try to write more clearly!'')]"

record hw_env =
  image :: "string option"
  vlm :: vlm_outcome
  hw_id_clock :: int
  hw_clock :: int

definition is_conceptual :: "Step \<Rightarrow> bool" where
  "is_conceptual st =
     (case validation st of None \<Rightarrow> False
      | Some v \<Rightarrow> errorType v = Some (JStr ''conceptual''))"

definition conceptualErrors :: "Step list \<Rightarrow> nat" where
  "conceptualErrors xs = length (filter is_conceptual xs)"

definition read_field :: "json \<Rightarrow> string \<Rightarrow> jsval" where
  "read_field j k = (case getProp j k of Inr v \<Rightarrow> v | Inl e \<Rightarrow> None)"

text \<open>
  \<^verbatim>\<open>handleHandwrittenStepSubmit\<close> is asynchronous. \<open>closure_steps\<close> is the
  \<^verbatim>\<open>steps\<close> constant of the render whose Check Step button was clicked: the handler
  counts the conceptual errors there. \<open>s\<close> is the state the reply lands on: the updater
  \<^verbatim>\<open>prev => [...prev, step]\<close> extends its steps. The buttons are never disabled, so
  other submissions may land between the click and the reply; for a submission made after
  the previous verdict was rendered, \<open>closure_steps\<close> is \<open>steps s\<close>.

  The state of the result is \<open>None\<close> when the component is torn down: a reply that
  parses to \<^verbatim>\<open>null\<close> makes the handler throw when it reads \<^verbatim>\<open>result.errorType\<close>, and
  the step updater queued before reads \<^verbatim>\<open>result\<close> too, throws during the render, and
  the component is unmounted.
\<close>

definition handleHandwrittenStepSubmit ::
  "hw_env \<Rightarrow> Step list \<Rightarrow> wb_state \<Rightarrow> wb_state option result" where
  "handleHandwrittenStepSubmit env closure_steps s =
     (case image env of
        None \<Rightarrow> \<lparr> res_state = Some s, res_effects = [], res_thrown = None \<rparr>
      | Some img \<Rightarrow>
          let res = (case vlm env of VlmResult j \<Rightarrow> j | VlmFailed \<Rightarrow> ocr_fallback_result)
          in if res = JNull
             then \<lparr> res_state = None, res_effects = [JudgeCall], res_thrown = Some TypeError \<rparr>
             else
               let newStep =
                     \<lparr> step_id = hw_id_clock env, step_content = read_field res ''extractedStep'',
                       validation = Some
                         \<lparr> v_isCorrect = read_field res ''isCorrect'',
                           errorType = read_field res ''errorType'',
                           v_feedback = read_field res ''feedback'',
                           encouragement = read_field res ''encouragement'' \<rparr>,
                       timestamp = hw_clock env \<rparr>;
                   fire = (read_field res ''errorType'' = Some (JStr ''conceptual'')
                           \<and> conceptualErrors closure_steps \<ge> 1)
               in \<lparr> res_state = Some
                      (s \<lparr> steps := steps s @ [newStep],
                           showExplanation := (if fire then True else showExplanation s) \<rparr>),
                    res_effects = JudgeCall # (if fire then [RemediationTrigger] else []),
                    res_thrown = None \<rparr>)"

definition fired :: "'s result \<Rightarrow> bool" where
  "fired r = (RemediationTrigger \<in> set (res_effects r))"

text \<open>
  The trigger flags of a sequence of handwritten submissions, one flag for each, when every
  submission is made after the verdict of the previous one was rendered. The sequence ends
  when the component is torn down.
\<close>

fun fired_flags :: "wb_state \<Rightarrow> hw_env list \<Rightarrow> bool list" where
  "fired_flags s [] = []"
| "fired_flags s (e # es) =
     fired (handleHandwrittenStepSubmit e (steps s) s)
       # (case res_state (handleHandwrittenStepSubmit e (steps s) s) of
            None \<Rightarrow> []
          | Some s' \<Rightarrow> fired_flags s' es)"

text \<open>
  The trigger flags when all the submissions are made on one render, whose steps are
  \<open>closure_steps\<close>, and their replies land one after the other.
\<close>

fun fired_flags_overlapping :: "Step list \<Rightarrow> wb_state \<Rightarrow> hw_env list \<Rightarrow> bool list" where
  "fired_flags_overlapping closure_steps s [] = []"
| "fired_flags_overlapping closure_steps s (e # es) =
     fired (handleHandwrittenStepSubmit e closure_steps s)
       # (case res_state (handleHandwrittenStepSubmit e closure_steps s) of
            None \<Rightarrow> []
          | Some s' \<Rightarrow> fired_flags_overlapping closure_steps s' es)"

text \<open>The Reset button of the workspace: \<^verbatim>\<open>setSteps([])\<close>.\<close>

definition resetSteps :: "wb_state \<Rightarrow> wb_state" where
  "resetSteps s = s \<lparr> steps := [] \<rparr>"

text \<open>A submission judged by the vision model, with error kind conceptual.\<close>

definition oracle_conceptual :: "hw_env \<Rightarrow> bool" where
  "oracle_conceptual env =
     (image env \<noteq> None \<and>
      (case vlm env of
         VlmFailed \<Rightarrow> False
       | VlmResult j \<Rightarrow> j \<noteq> JNull \<and> read_field j ''errorType'' = Some (JStr ''conceptual'')))"

text \<open>
  The remediation monitor as the specification words it: a counter of consecutive
  conceptual verdicts of oracle confidence; reaching the threshold fires the trigger and
  resets the counter, any other verdict resets the counter too. A verdict is given here
  by whether its error kind is conceptual and whether its confidence is oracle.
\<close>

fun spec_monitor :: "nat \<Rightarrow> nat \<Rightarrow> (bool \<times> bool) list \<Rightarrow> bool list" where
  "spec_monitor th k [] = []"
| "spec_monitor th k ((conceptual, from_oracle) # vs) =
     (if conceptual \<and> from_oracle
      then (if k + 1 \<ge> th then True # spec_monitor th 0 vs
            else False # spec_monitor th (k + 1) vs)
      else False # spec_monitor th 0 vs)"

subsection \<open>Concrete inputs\<close>

definition demo_conceptual_reply :: json where
  "demo_conceptual_reply =
     JObj [(''extractedStep'', JStr ''2x = 7 + 16 + 16''),
           (''isCorrect'', JBool False),
           (''errorType'', JStr ''conceptual''),
           (''feedback'', JStr ''Square first, then apply the sign.''),
           (''encouragement'', JStr ''Good effort!'')]"

definition demo_hw_env :: hw_env where
  "demo_hw_env =
     \<lparr> image = Some ''data:image/png;base64,AAAA'', vlm = VlmResult demo_conceptual_reply,
       hw_id_clock = 1, hw_clock = 1 \<rparr>"

definition demo_hw_failed :: hw_env where
  "demo_hw_failed = demo_hw_env \<lparr> vlm := VlmFailed \<rparr>"

text \<open>
  The example problem on the board, and the step the local validator classifies as a
  conceptual error, checked while the judgment service cannot be reached.
\<close>

definition demo_board :: wb_state where
  "demo_board = wb_init \<lparr> wb_question := ''Solve: 2x = 7 - (4)^2 + 16'',
                           currentStep := ''2x = 7 + 16 + 16'' \<rparr>"

definition demo_offline :: wb_env where
  "demo_offline = \<lparr> ai = AiFailed, wb_id_clock = 0, wb_clock = 0 \<rparr>"

definition demo_hw4 :: "hw_env list" where
  "demo_hw4 = [demo_hw_env, demo_hw_env, demo_hw_env, demo_hw_env]"

text \<open>The board after the offline check of the conceptual step.\<close>

definition demo_board_checked :: wb_state where
  "demo_board_checked = res_state (handleStepValidation demo_offline demo_board)"

text \<open>A one-character step, and a reply of the judgment service that accepts it.\<close>

definition demo_short_board :: wb_state where
  "demo_short_board = wb_init \<lparr> wb_question := ''Solve: x + 1 = 2'', currentStep := ''x'' \<rparr>"

definition demo_accepting :: wb_env where
  "demo_accepting =
     \<lparr> ai = AiText (''{'' @ [CHR 0x22] @ ''isCorrect'' @ [CHR 0x22] @ '': true}'')
              (Some (JObj [(''isCorrect'', JBool True)])),
       wb_id_clock = 0, wb_clock = 0 \<rparr>"

section \<open>Properties of the practice engine\<close>

lemma submitAnswer_accepted:
  assumes "currentQuestion s = Some q" and "currentSession s = Some sess"
    and "questionStartTime s = Some t0"
    and "trim (chosenAnswer s q) \<noteq> []"
    and "getProp (validateAnswer q (chosenAnswer s q) (judge env)) ''isCorrect'' = Inr ic"
    and "us = updatedSession sess q (chosenAnswer s q) ic (of_int (now env - t0) / 1000) (difficulty s)"
  shows "difficulty (res_state (submitAnswer env s)) = adaptDifficulty (accuracy (performance us)) (difficulty s)"
    and "currentSession (res_state (submitAnswer env s)) =
         Some (if totalQuestions (performance us) \<ge> 10 then us\<lparr>endTime := Some (end_clock env)\<rparr> else us)"
    and "sessionPhase (res_state (submitAnswer env s)) =
         (if totalQuestions (performance us) \<ge> 10 then completed else sessionPhase s)"
    and "totalQuestions (performance us) \<ge> 10 \<Longrightarrow> currentQuestion (res_state (submitAnswer env s)) = currentQuestion s"
    and "totalQuestions (performance us) \<ge> 10 \<Longrightarrow> no_generate (res_effects (submitAnswer env s))"
  using assms
  by (simp_all add: submitAnswer_def Let_def endSession_def no_generate_def split: option.splits)

lemma updatedSession_simps:
  "length (answers (updatedSession sess q a ic t d)) = length (answers sess) + 1"
  "totalQuestions (performance (updatedSession sess q a ic t d)) = totalQuestions (performance sess) + 1"
  "correctAnswers (performance (updatedSession sess q a ic t d)) = correctAnswers (performance sess) + (if truthy ic then 1 else 0)"
  "accuracy (performance (updatedSession sess q a ic t d)) =
     of_nat (correctAnswers (performance (updatedSession sess q a ic t d)))
       / of_nat (totalQuestions (performance (updatedSession sess q a ic t d))) * 100"
  "averageTime (performance (updatedSession sess q a ic t d)) = (averageTime (performance sess) + t) / 2"
  by (simp_all add: updatedSession_def updatedPerformance_def)

text \<open>
  The question issued by a submit carries the tier the handler started with, not the
  tier the adapter has just set.
\<close>

lemma next_question_issued_at_old_tier:
  assumes "currentQuestion s = Some q" and "currentSession s = Some sess"
    and "questionStartTime s = Some t0"
    and "trim (chosenAnswer s q) \<noteq> []"
    and "getProp (validateAnswer q (chosenAnswer s q) (judge env)) ''isCorrect'' = Inr ic"
    and "totalQuestions (performance sess) + 1 < 10" and "selectedTopic s = Some tp"
  shows "map_option q_difficulty (currentQuestion (res_state (submitAnswer env s))) = Some (difficulty s)"
  using assms
  by (simp add: submitAnswer_def Let_def updatedSession_def updatedPerformance_def generateQuestion_def)

text \<open>
  Claim C1, as the code has it: a submit that records a verdict appends one answer that
  carries the verdict, adds one to the total and, when the verdict is truthy, one to the
  number of correct answers, and sets the cumulative accuracy to the percentage of correct
  answers among the answers so far (literally so when the counters agree with the answer
  log, as they do in every reachable state). The adapter then moves the difficulty state
  straight to \<open>advanced\<close> when that accuracy is above 80 and the tier is not
  \<open>advanced\<close>, straight to \<open>easy\<close> when it is below 60 and the tier is not
  \<open>easy\<close>, and keeps it otherwise. No step goes to \<open>medium\<close>.
\<close>

theorem adapt_moves_to_extreme_tier:
  assumes "currentQuestion s = Some q" and "currentSession s = Some sess"
    and "questionStartTime s = Some t0"
    and "trim (chosenAnswer s q) \<noteq> []"
    and "getProp (validateAnswer q (chosenAnswer s q) (judge env)) ''isCorrect'' = Inr ic"
  shows "\<exists>sess' a. currentSession (res_state (submitAnswer env s)) = Some sess' \<and>
     answers sess' = answers sess @ [a] \<and> isCorrect a = ic \<and>
     totalQuestions (performance sess') = totalQuestions (performance sess) + 1 \<and>
     correctAnswers (performance sess') =
       correctAnswers (performance sess) + (if truthy ic then 1 else 0) \<and>
     accuracy (performance sess') =
       of_nat (correctAnswers (performance sess) + (if truthy ic then 1 else 0))
         / of_nat (totalQuestions (performance sess) + 1) * 100 \<and>
     (counters_match sess \<longrightarrow>
        counters_match sess' \<and>
        accuracy (performance sess') =
          of_nat (length (filter (\<lambda>a. truthy (isCorrect a)) (answers sess')))
            / of_nat (length (answers sess')) * 100) \<and>
     difficulty (res_state (submitAnswer env s)) =
       (if accuracy (performance sess') > 80 \<and> difficulty s \<noteq> advanced then advanced
        else if accuracy (performance sess') < 60 \<and> difficulty s \<noteq> easy then easy
        else difficulty s)"
proof -
  define us where "us = updatedSession sess q (chosenAnswer s q) ic (of_int (now env - t0) / 1000) (difficulty s)"
  define sess' where "sess' = (if totalQuestions (performance us) \<ge> 10 then us\<lparr>endTime := Some (end_clock env)\<rparr> else us)"
  define a where "a = \<lparr> questionId = q_id q, answer = chosenAnswer s q, isCorrect = ic,
                          timeSpent = of_int (now env - t0) / 1000, a_difficulty = difficulty s \<rparr>"
  have perf: "performance sess' = performance us" and ans: "answers sess' = answers us"
    by (simp_all add: sess'_def)
  have cur: "currentSession (res_state (submitAnswer env s)) = Some sess'"
    unfolding sess'_def by (rule submitAnswer_accepted(2)[OF assms us_def])
  have dif: "difficulty (res_state (submitAnswer env s)) = adaptDifficulty (accuracy (performance us)) (difficulty s)"
    by (rule submitAnswer_accepted(1)[OF assms us_def])
  have app: "answers sess' = answers sess @ [a]" and ica: "isCorrect a = ic"
    by (simp_all add: ans us_def a_def updatedSession_def)
  have tot: "totalQuestions (performance sess') = totalQuestions (performance sess) + 1"
    and cor: "correctAnswers (performance sess') =
       correctAnswers (performance sess) + (if truthy ic then 1 else 0)"
    and acc: "accuracy (performance sess') =
       of_nat (correctAnswers (performance sess) + (if truthy ic then 1 else 0))
         / of_nat (totalQuestions (performance sess) + 1) * 100"
    by (simp_all add: perf us_def updatedSession_def updatedPerformance_def)
  have cm: "counters_match sess'" if "counters_match sess"
    using that by (simp add: counters_match_def tot cor app ica)
  have lit: "accuracy (performance sess') =
          of_nat (length (filter (\<lambda>a. truthy (isCorrect a)) (answers sess')))
            / of_nat (length (answers sess')) * 100" if "counters_match sess"
    using cm[OF that] acc tot cor by (simp add: counters_match_def)
  have d: "difficulty (res_state (submitAnswer env s)) =
       (if accuracy (performance sess') > 80 \<and> difficulty s \<noteq> advanced then advanced
        else if accuracy (performance sess') < 60 \<and> difficulty s \<noteq> easy then easy
        else difficulty s)"
    using dif by (simp add: adaptDifficulty_def perf)
  from cur app ica tot cor acc cm lit d show ?thesis by blast
qed

text \<open>
  The theorem at the first answer of the demo session. With the expected option: one
  correct answer, accuracy 100, and the tier goes from \<open>easy\<close> to \<open>advanced\<close>. With
  another option: one wrong answer, accuracy 0, and the tier stays \<open>easy\<close>.
\<close>

theorem adapt_moves_to_extreme_tier_witness:
  "(\<exists>sess' a. currentSession (res_state (submitAnswer demo_env demo_started)) = Some sess' \<and>
     answers sess' = [a] \<and> isCorrect a = Some (JBool True) \<and>
     correctAnswers (performance sess') = 1 \<and> accuracy (performance sess') = 100 \<and>
     difficulty (res_state (submitAnswer demo_env demo_started)) = advanced) \<and>
   (\<exists>sess' a. currentSession (res_state (submitAnswer demo_env demo_wrong)) = Some sess' \<and>
     answers sess' = [a] \<and> isCorrect a = Some (JBool False) \<and>
     correctAnswers (performance sess') = 0 \<and> accuracy (performance sess') = 0 \<and>
     difficulty (res_state (submitAnswer demo_env demo_wrong)) = easy)"
proof -
  let ?sess0 = "\<lparr> ps_id = 0, ps_topic = ''Linear Systems'', ps_questionType = mcq, startTime = 0,
            endTime = None, questions = [], answers = [],
            performance = \<lparr> totalQuestions = 0, correctAnswers = 0, averageTime = 0,
                            accuracy = 0, difficultyProgression = [] \<rparr> \<rparr>"
  have h1: "currentQuestion demo_started = Some demo_question" by code_simp
  have h2: "currentSession demo_started = Some ?sess0" by code_simp
  have h3: "questionStartTime demo_started = Some 1000" by code_simp
  have h4: "trim (chosenAnswer demo_started demo_question) \<noteq> []" by code_simp
  have h5: "getProp (validateAnswer demo_question (chosenAnswer demo_started demo_question)
              (judge demo_env)) ''isCorrect'' = Inr (Some (JBool True))" by code_simp
  have w1: "currentQuestion demo_wrong = Some demo_question" by code_simp
  have w2: "currentSession demo_wrong = Some ?sess0" by code_simp
  have w3: "questionStartTime demo_wrong = Some 1000" by code_simp
  have w4: "trim (chosenAnswer demo_wrong demo_question) \<noteq> []" by code_simp
  have w5: "getProp (validateAnswer demo_question (chosenAnswer demo_wrong demo_question)
              (judge demo_env)) ''isCorrect'' = Inr (Some (JBool False))" by code_simp
  have d: "difficulty demo_started = easy" "difficulty demo_wrong = easy" by code_simp+
  have m: "counters_match ?sess0" by (simp add: counters_match_def)
  from adapt_moves_to_extreme_tier[OF h1 h2 h3 h4 h5] d(1) m
  have a: "\<exists>sess' a. currentSession (res_state (submitAnswer demo_env demo_started)) = Some sess' \<and>
     answers sess' = [a] \<and> isCorrect a = Some (JBool True) \<and>
     correctAnswers (performance sess') = 1 \<and> accuracy (performance sess') = 100 \<and>
     difficulty (res_state (submitAnswer demo_env demo_started)) = advanced"
    by auto
  from adapt_moves_to_extreme_tier[OF w1 w2 w3 w4 w5] d(2) m
  have b: "\<exists>sess' a. currentSession (res_state (submitAnswer demo_env demo_wrong)) = Some sess' \<and>
     answers sess' = [a] \<and> isCorrect a = Some (JBool False) \<and>
     correctAnswers (performance sess') = 0 \<and> accuracy (performance sess') = 0 \<and>
     difficulty (res_state (submitAnswer demo_env demo_wrong)) = easy"
    by auto
  from a b show ?thesis by blast
qed

text \<open>
  Claim C1 as stated fails: from \<open>easy\<close> with accuracy 100 the code reaches
  \<open>advanced\<close>, where a move of exactly one step reaches \<open>medium\<close>.
\<close>

theorem adapt_one_step_counterexample:
  "difficulty demo_started = easy \<and>
   accuracy (performance (the (currentSession (res_state (submitAnswer demo_env demo_started))))) = 100 \<and>
   difficulty (res_state (submitAnswer demo_env demo_started)) = advanced \<and>
   spec_adaptDifficulty 100 easy = medium \<and>
   difficulty (res_state (submitAnswer demo_env demo_started)) \<noteq> spec_adaptDifficulty 100 (difficulty demo_started)"
  by code_simp

text \<open>
  Claim C2 at a session with one recorded attempt of ten seconds: the mean of the
  elapsed times is 10, and the average time the session reports is 5.
\<close>

theorem averageTime_halves_first_sample:
  "map timeSpent (answers (the (currentSession (res_state (submitAnswer demo_env demo_started))))) = [10] \<and>
   mean_time (answers (the (currentSession (res_state (submitAnswer demo_env demo_started))))) = 10 \<and>
   averageTime (performance (the (currentSession (res_state (submitAnswer demo_env demo_started))))) = 5"
  by code_simp

lemma practice_inv_step: "practice_inv s \<Longrightarrow> practice_inv (practice_step s ev)"
proof (cases ev)
  case (Submit env)
  then show "practice_inv s \<Longrightarrow> practice_inv (practice_step s ev)"
    by (auto simp: practice_inv_def submitAnswer_def Let_def endSession_def updatedSession_def updatedPerformance_def in_practice_view_def
        split: option.splits sum.splits if_splits)
next
  case (StartSession env)
  then show "practice_inv s \<Longrightarrow> practice_inv (practice_step s ev)"
    by (auto simp: practice_inv_def startSession_def split: option.splits)
qed (auto simp: practice_inv_def in_practice_view_def in_completed_view_def split: option.splits)

lemma practice_inv_foldl: "practice_inv s \<Longrightarrow> practice_inv (foldl practice_step s evs)"
  by (induction evs arbitrary: s) (simp_all add: practice_inv_step)

lemma practice_inv_run: "practice_inv (practice_run evs)"
  unfolding practice_run_def by (rule practice_inv_foldl) (simp add: practice_inv_def practice_init_def)


text \<open>In every reachable state the counters of the session agree with its answer log.\<close>

lemma counters_match_step:
  assumes "case currentSession s of None \<Rightarrow> True | Some sess \<Rightarrow> counters_match sess"
  shows "case currentSession (practice_step s ev) of None \<Rightarrow> True | Some sess \<Rightarrow> counters_match sess"
proof (cases ev)
  case (Submit env)
  with assms show ?thesis
    by (auto simp: counters_match_def submitAnswer_def Let_def endSession_def updatedSession_def
        updatedPerformance_def in_practice_view_def split: option.splits sum.splits if_splits)
next
  case (StartSession env)
  with assms show ?thesis
    by (auto simp: counters_match_def startSession_def split: option.splits)
qed (use assms in \<open>auto simp: in_practice_view_def in_completed_view_def split: option.splits\<close>)

lemma counters_match_foldl:
  "(case currentSession s of None \<Rightarrow> True | Some sess \<Rightarrow> counters_match sess) \<Longrightarrow>
   (case currentSession (foldl practice_step s evs) of None \<Rightarrow> True
    | Some sess \<Rightarrow> counters_match sess)"
  by (induction evs arbitrary: s) (simp_all add: counters_match_step)

lemma counters_match_run:
  "case currentSession (practice_run evs) of None \<Rightarrow> True | Some sess \<Rightarrow> counters_match sess"
  unfolding practice_run_def by (rule counters_match_foldl) (simp add: practice_init_def)

text \<open>
  Claim C10: whatever the sequence of events on the controls of the practice engine, the
  session holds at most ten answers; and the submit that records the tenth answer moves
  the session to \<open>completed\<close>, keeps the current question and asks for no further one.
  The topic, and so its advertised question count, is arbitrary.
\<close>

theorem practice_session_at_most_ten:
  "answered (practice_run evs) \<le> 10 \<and>
   (answered (practice_run evs) = 9 \<and>
    answered (practice_step (practice_run evs) (Submit env)) = 10 \<longrightarrow>
      sessionPhase (practice_step (practice_run evs) (Submit env)) = completed \<and>
      currentQuestion (practice_step (practice_run evs) (Submit env)) = currentQuestion (practice_run evs) \<and>
      no_generate (res_effects (submitAnswer env (practice_run evs))))"
proof -
  define s where "s = practice_run evs"
  have inv: "practice_inv s" unfolding s_def by (rule practice_inv_run)
  have le: "answered s \<le> 10"
    using inv by (auto simp: practice_inv_def answered_def split: option.splits if_splits)
  have tr: "sessionPhase (practice_step s (Submit env)) = completed \<and>
      currentQuestion (practice_step s (Submit env)) = currentQuestion s \<and>
      no_generate (res_effects (submitAnswer env s))"
    if a: "answered s = 9" and b: "answered (practice_step s (Submit env)) = 10"
    using inv a b
    by (auto simp: practice_inv_def answered_def submitAnswer_def Let_def endSession_def
        updatedSession_def updatedPerformance_def in_practice_view_def no_generate_def
        split: option.splits sum.splits if_splits)
  from le tr show ?thesis unfolding s_def by blast
qed

text \<open>
  The theorem at the demo run: nine answers recorded, then the tenth submit.
\<close>

theorem practice_session_at_most_ten_witness:
  "answered (practice_run demo_nine) = 9 \<and>
   answered (practice_step (practice_run demo_nine) (Submit (demo_env_at 10))) = 10 \<and>
   sessionPhase (practice_step (practice_run demo_nine) (Submit (demo_env_at 10))) = completed \<and>
   currentQuestion (practice_step (practice_run demo_nine) (Submit (demo_env_at 10))) =
     currentQuestion (practice_run demo_nine) \<and>
   no_generate (res_effects (submitAnswer (demo_env_at 10) (practice_run demo_nine)))"
proof -
  have h1: "answered (practice_run demo_nine) = 9" by code_simp
  have h2: "answered (practice_step (practice_run demo_nine) (Submit (demo_env_at 10))) = 10"
    by code_simp
  from practice_session_at_most_ten[of demo_nine "demo_env_at 10"] h1 h2 show ?thesis by blast
qed

section \<open>Properties of the remediation trigger\<close>

lemma hw_fired_iff:
  "fired (handleHandwrittenStepSubmit env cl s) = (oracle_conceptual env \<and> 1 \<le> conceptualErrors cl)"
  by (auto simp: oracle_conceptual_def handleHandwrittenStepSubmit_def fired_def Let_def
      ocr_fallback_result_def read_field_def split: option.splits vlm_outcome.splits)

lemma hw_conceptual_step:
  assumes "oracle_conceptual env"
  shows "\<exists>s'. res_state (handleHandwrittenStepSubmit env cl s) = Some s' \<and>
           conceptualErrors (steps s') = conceptualErrors (steps s) + 1"
  using assms
  by (auto simp: oracle_conceptual_def handleHandwrittenStepSubmit_def Let_def
      conceptualErrors_def is_conceptual_def split: option.splits vlm_outcome.splits)

lemma hw_steps_grow:
  "res_state (handleHandwrittenStepSubmit env cl s) = Some s' \<Longrightarrow>
     conceptualErrors (steps s) \<le> conceptualErrors (steps s') \<and>
     (vlm env = VlmFailed \<longrightarrow> showExplanation s' = showExplanation s)"
  by (auto simp: handleHandwrittenStepSubmit_def Let_def conceptualErrors_def
      ocr_fallback_result_def read_field_def split: option.splits if_splits)

lemma fired_flags_conceptual:
  assumes "\<forall>e \<in> set envs. oracle_conceptual e"
  shows "fired_flags s envs = map (\<lambda>k. conceptualErrors (steps s) + k \<ge> 1) [0..<length envs]"
  using assms
proof (induction envs arbitrary: s)
  case Nil
  then show ?case by simp
next
  case (Cons e es)
  have e: "oracle_conceptual e" and es: "\<forall>x \<in> set es. oracle_conceptual x"
    using Cons.prems by simp_all
  from hw_conceptual_step[OF e, of "steps s" s] obtain s' where
    s': "res_state (handleHandwrittenStepSubmit e (steps s) s) = Some s'"
        "conceptualErrors (steps s') = conceptualErrors (steps s) + 1"
    by blast
  have "[0..<length (e # es)] = 0 # map Suc [0..<length es]"
    by (simp add: upt_conv_Cons map_Suc_upt del: upt_Suc)
  then show ?case
    using Cons.IH[OF es, of s'] s' e
    by (simp add: comp_def hw_fired_iff del: upt_Suc)
qed

lemma fired_flags_overlapping_silent:
  assumes "\<forall>e \<in> set envs. oracle_conceptual e" and "conceptualErrors cl = 0"
  shows "fired_flags_overlapping cl s envs = replicate (length envs) False"
  using assms(1)
proof (induction envs arbitrary: s)
  case Nil
  then show ?case by simp
next
  case (Cons e es)
  have e: "oracle_conceptual e" and es: "\<forall>x \<in> set es. oracle_conceptual x"
    using Cons.prems by simp_all
  from hw_conceptual_step[OF e, of cl s] obtain s' where
    s': "res_state (handleHandwrittenStepSubmit e cl s) = Some s'"
    by blast
  show ?case
    using Cons.IH[OF es, of s'] s' assms(2) by (simp add: hw_fired_iff)
qed

text \<open>
  Claim C3, as the code has it. The remediation trigger fires at a verdict exactly when
  the verdict comes from the vision model with error kind conceptual and the steps of the
  render on which the submission was made hold at least one conceptual step: the handler
  keeps no counter and resets nothing. So in a run of submissions that the vision model
  all judges conceptual, on a history without a conceptual step, the trigger fires at
  every submission but the first when each is made after the previous verdict was
  rendered (for four: at the second, the third and the fourth), and at none of them when
  all are made before the first verdict is rendered.
\<close>

theorem remediation_fires_at_every_repeat:
  "fired (handleHandwrittenStepSubmit env cl s) = (oracle_conceptual env \<and> 1 \<le> conceptualErrors cl) \<and>
   ((\<forall>e \<in> set envs. oracle_conceptual e) \<and> conceptualErrors (steps s) = 0 \<longrightarrow>
      fired_flags s envs = map (\<lambda>k. k \<ge> 1) [0..<length envs]) \<and>
   ((\<forall>e \<in> set envs. oracle_conceptual e) \<and> conceptualErrors cl = 0 \<longrightarrow>
      fired_flags_overlapping cl s envs = replicate (length envs) False)"
proof -
  have a: "fired_flags s envs = map (\<lambda>k. k \<ge> 1) [0..<length envs]"
    if "\<forall>e \<in> set envs. oracle_conceptual e" "conceptualErrors (steps s) = 0"
    using fired_flags_conceptual[OF that(1), of s] that(2) by simp
  have b: "fired_flags_overlapping cl s envs = replicate (length envs) False"
    if "\<forall>e \<in> set envs. oracle_conceptual e" "conceptualErrors cl = 0"
    using fired_flags_overlapping_silent[OF that] .
  from a b hw_fired_iff[of env cl s] show ?thesis by blast
qed

text \<open>
  The theorem at four conceptual verdicts of the vision model on the empty board, one
  after the other and all at once.
\<close>

theorem remediation_fires_at_every_repeat_witness:
  "fired_flags wb_init demo_hw4 = [False, True, True, True] \<and>
   fired_flags_overlapping (steps wb_init) wb_init demo_hw4 = [False, False, False, False]"
proof -
  have h1: "\<forall>e \<in> set demo_hw4. oracle_conceptual e" by code_simp
  have h2: "conceptualErrors (steps wb_init) = 0" by code_simp
  have m: "map (\<lambda>k. k \<ge> 1) [0..<length demo_hw4] = [False, True, True, True]"
    "replicate (length demo_hw4) False = [False, False, False, False]" by code_simp+
  from remediation_fires_at_every_repeat[of demo_hw_env "steps wb_init" wb_init demo_hw4] h1 h2 m
  show ?thesis by simp
qed

text \<open>
  Claim C3 as stated fails: on four consecutive conceptual verdicts of the vision model,
  each submitted after the verdict before it, the trigger fires three times, at the
  second, third and fourth, and not once only.
\<close>

theorem remediation_once_counterexample:
  "list_all oracle_conceptual demo_hw4 \<and> length demo_hw4 = 4 \<and>
   fired_flags wb_init demo_hw4 = [False, True, True, True] \<and>
   fired_flags wb_init demo_hw4 \<noteq> [False, True, False, False] \<and>
   length (filter (\<lambda>b. b) (fired_flags wb_init demo_hw4)) = 3"
  by code_simp

text \<open>
  Claim C4, as the code has it. A verdict that does not come from the judgment service
  never fires the remediation trigger itself, and leaves the explanation flag as it is:
  so the fallback of the handwriting path, whose error kind is \<open>ocr-fallback\<close>, and so
  every verdict of the typed path, whose handler has no trigger at all. But such a verdict
  is not discounted and resets nothing. Any conceptual step among the steps of the render
  on which a submission is made, whatever the source of its verdict, makes a conceptual
  verdict of the vision model fire the trigger; in particular a step that the local
  validator classified conceptual while the judgment service could not be used makes the
  next conceptual verdict of the vision model fire it. Recording a verdict never decreases
  the number of conceptual steps in the history; only the Reset button empties it.
\<close>

theorem heuristic_verdict_fires_nothing_resets_nothing:
  "(vlm env = VlmFailed \<longrightarrow>
      \<not> fired (handleHandwrittenStepSubmit env cl s) \<and>
      map_option showExplanation (res_state (handleHandwrittenStepSubmit env cl s))
        = Some (showExplanation s)) \<and>
   \<not> fired (handleStepValidation wenv s) \<and>
   showExplanation (res_state (handleStepValidation wenv s)) = showExplanation s \<and>
   (oracle_conceptual env \<and> st \<in> set cl \<and> is_conceptual st \<longrightarrow>
      fired (handleHandwrittenStepSubmit env cl s)) \<and>
   (oracle_conceptual env \<and> validateStepWithAI (ai wenv) = Inl e \<and> trim (currentStep s) \<noteq> [] \<and>
    errorType (validateStep (currentStep s) (wb_question s)) = Some (JStr ''conceptual'') \<longrightarrow>
      fired (handleHandwrittenStepSubmit env (steps (res_state (handleStepValidation wenv s)))
               (res_state (handleStepValidation wenv s)))) \<and>
   (res_state (handleHandwrittenStepSubmit env cl s) = Some s' \<longrightarrow>
      conceptualErrors (steps s) \<le> conceptualErrors (steps s')) \<and>
   conceptualErrors (steps s) \<le> conceptualErrors (steps (res_state (handleStepValidation wenv s))) \<and>
   conceptualErrors (steps (resetSteps s)) = 0"
proof -
  have a: "\<not> fired (handleHandwrittenStepSubmit env cl s) \<and>
      map_option showExplanation (res_state (handleHandwrittenStepSubmit env cl s))
        = Some (showExplanation s)" if "vlm env = VlmFailed"
    using that
    by (auto simp: handleHandwrittenStepSubmit_def fired_def Let_def ocr_fallback_result_def
        read_field_def split: option.splits)
  have b: "\<not> fired (handleStepValidation wenv s) \<and>
      showExplanation (res_state (handleStepValidation wenv s)) = showExplanation s"
    by (auto simp: handleStepValidation_def fired_def Let_def split: sum.splits)
  have pos: "1 \<le> conceptualErrors xs" if "x \<in> set xs" "is_conceptual x" for x xs
  proof -
    from that have "x \<in> set (filter is_conceptual xs)" by simp
    then have "0 < length (filter is_conceptual xs)" by (rule length_pos_if_in_set)
    then show ?thesis by (simp add: conceptualErrors_def Suc_le_eq)
  qed
  have c: "fired (handleHandwrittenStepSubmit env cl s)"
    if "oracle_conceptual env" "st \<in> set cl" "is_conceptual st"
    using that pos[of st cl] by (simp add: hw_fired_iff)
  have d: "fired (handleHandwrittenStepSubmit env (steps (res_state (handleStepValidation wenv s)))
               (res_state (handleStepValidation wenv s)))"
    if "oracle_conceptual env" "validateStepWithAI (ai wenv) = Inl e" "trim (currentStep s) \<noteq> []"
       "errorType (validateStep (currentStep s) (wb_question s)) = Some (JStr ''conceptual'')"
  proof -
    let ?st = "\<lparr> step_id = wb_id_clock wenv, step_content = Some (JStr (currentStep s)),
                 validation = Some (validateStep (currentStep s) (wb_question s)),
                 timestamp = wb_clock wenv \<rparr>"
    have "steps (res_state (handleStepValidation wenv s)) = steps s @ [?st]"
      using that(2,3) by (simp add: handleStepValidation_def Let_def)
    moreover have "is_conceptual ?st" using that(4) by (simp add: is_conceptual_def)
    ultimately show ?thesis
      using that(1) pos[of ?st "steps (res_state (handleStepValidation wenv s))"]
      by (simp add: hw_fired_iff)
  qed
  have f: "conceptualErrors (steps s) \<le> conceptualErrors (steps s')"
    if "res_state (handleHandwrittenStepSubmit env cl s) = Some s'"
    using hw_steps_grow[OF that] by simp
  have g: "conceptualErrors (steps s) \<le> conceptualErrors (steps (res_state (handleStepValidation wenv s)))"
    by (auto simp: handleStepValidation_def Let_def conceptualErrors_def)
  have h: "conceptualErrors (steps (resetSteps s)) = 0"
    by (simp add: resetSteps_def conceptualErrors_def)
  from a b c d f g h show ?thesis by blast
qed

text \<open>
  The theorem at the example board: the conceptual step checked offline is recorded, a
  failing vision model fires nothing on that board, and the next conceptual verdict of the
  vision model fires the trigger.
\<close>

theorem heuristic_verdict_fires_nothing_resets_nothing_witness:
  "vlm demo_hw_failed = VlmFailed \<and>
   \<not> fired (handleHandwrittenStepSubmit demo_hw_failed (steps demo_board_checked) demo_board_checked) \<and>
   conceptualErrors (steps demo_board_checked) = 1 \<and>
   validateStepWithAI (ai demo_offline) = Inl ApiError \<and>
   errorType (validateStep (currentStep demo_board) (wb_question demo_board)) = Some (JStr ''conceptual'') \<and>
   fired (handleHandwrittenStepSubmit demo_hw_env (steps demo_board_checked) demo_board_checked) \<and>
   conceptualErrors (steps (resetSteps demo_board_checked)) = 0"
proof -
  have h: "vlm demo_hw_failed = VlmFailed" by code_simp
  have c: "conceptualErrors (steps demo_board_checked) = 1" by code_simp
  have o: "oracle_conceptual demo_hw_env" by code_simp
  have v: "validateStepWithAI (ai demo_offline) = Inl ApiError" by code_simp
  have t: "trim (currentStep demo_board) \<noteq> []" by code_simp
  have k: "errorType (validateStep (currentStep demo_board) (wb_question demo_board)) = Some (JStr ''conceptual'')"
    by code_simp
  from heuristic_verdict_fires_nothing_resets_nothing[of demo_hw_failed "steps demo_board_checked"
         demo_board_checked demo_offline]
  have n: "\<not> fired (handleHandwrittenStepSubmit demo_hw_failed (steps demo_board_checked) demo_board_checked)"
    and r: "conceptualErrors (steps (resetSteps demo_board_checked)) = 0"
    using h by blast+
  from heuristic_verdict_fires_nothing_resets_nothing[of demo_hw_env _ demo_board demo_offline _ ApiError]
       o v t k
  have y: "fired (handleHandwrittenStepSubmit demo_hw_env (steps demo_board_checked) demo_board_checked)"
    unfolding demo_board_checked_def by blast
  from h c v k n r y show ?thesis by blast
qed

text \<open>
  Claim C4 as stated fails twice. A conceptual verdict of the local validator (the
  judgment service being unreachable) is counted: the first conceptual verdict of the
  vision model after it fires the trigger, where the monitor of the specification, with
  threshold 2, stays silent. And a fallback verdict between two conceptual verdicts of the
  vision model resets nothing: the trigger fires at the third submission.
\<close>

theorem heuristic_conceptual_counts_counterexample:
  "ai demo_offline = AiFailed \<and>
   map (\<lambda>st. map_option errorType (validation st)) (steps demo_board_checked)
     = [Some (Some (JStr ''conceptual''))] \<and>
   conceptualErrors (steps demo_board_checked) = 1 \<and>
   fired (handleHandwrittenStepSubmit demo_hw_env (steps demo_board_checked) demo_board_checked) \<and>
   spec_monitor 2 0 [(True, False), (True, True)] = [False, False] \<and>
   fired_flags wb_init [demo_hw_env, demo_hw_failed, demo_hw_env] = [False, False, True] \<and>
   spec_monitor 2 0 [(True, True), (False, False), (True, True)] = [False, False, False]"
  by code_simp

section \<open>Properties of the validation\<close>

text \<open>
  Claim C5 at the demo session, when the judgment service replies with the text of an
  empty object: the answer is recorded with an undefined correctness, which is no boolean,
  and nothing is thrown. When it replies with the text \<^verbatim>\<open>null\<close>, the submit throws
  a TypeError. The whiteboard's \<^verbatim>\<open>validateStepWithAI\<close> turns the same empty object into
  the boolean false.
\<close>

theorem unset_correctness_from_empty_reply:
  "map isCorrect (answers (the (currentSession (res_state
      (submitAnswer (demo_env \<lparr> judge := JudgeParsed (JObj []) \<rparr>) demo_started))))) = [None] \<and>
   \<not> is_boolean None \<and>
   res_thrown (submitAnswer (demo_env \<lparr> judge := JudgeParsed (JObj []) \<rparr>) demo_started) = None \<and>
   res_thrown (submitAnswer (demo_env \<lparr> judge := JudgeParsed JNull \<rparr>) demo_started) = Some TypeError \<and>
   map_sum id v_isCorrect (validateStepWithAI (AiText ''{}'' (Some (JObj [])))) = Inr (Some (JBool False))"
  by code_simp

text \<open>
  Claim C6, as the code has it: the local validation of the exam does not depend on the
  random draw for a multiple-choice item, nor for a written answer that contains the word
  \<open>correct\<close>; and the fallback verdict of the practice engine (correctness, feedback and
  explanation) is determined by the type and the expected answer of the item and by the
  attempt.
\<close>

theorem heuristic_validators_determined:
  "(eq_type q = mcq \<or> includes_str (toLowerCase a) ''correct'' \<longrightarrow>
      examIsCorrect q a r1 = examIsCorrect q a r2) \<and>
   (q_type pq = q_type pq' \<and> q_correctAnswer pq = q_correctAnswer pq' \<longrightarrow>
      validateAnswer pq a JudgeFailed = validateAnswer pq' a JudgeFailed)"
  by (auto simp: examIsCorrect_def validateAnswer_def fallbackIsCorrect_def)

text \<open>
  The theorem at a written answer that contains the word, and at two practice questions
  that differ in their text only.
\<close>

theorem heuristic_validators_determined_witness:
  "eq_type demo_written \<noteq> mcq \<and> includes_str (toLowerCase ''This is CORRECT'') ''correct'' \<and>
   examIsCorrect demo_written ''This is CORRECT'' (9 / 10) =
     examIsCorrect demo_written ''This is CORRECT'' (1 / 10) \<and>
   validateAnswer demo_question ''This is CORRECT'' JudgeFailed =
     validateAnswer (demo_question \<lparr> q_text := ''Another text'' \<rparr>) ''This is CORRECT'' JudgeFailed"
proof -
  have h1: "eq_type demo_written \<noteq> mcq \<and> includes_str (toLowerCase ''This is CORRECT'') ''correct''"
    by code_simp
  have h2: "q_type demo_question = q_type (demo_question \<lparr> q_text := ''Another text'' \<rparr>) \<and>
            q_correctAnswer demo_question = q_correctAnswer (demo_question \<lparr> q_text := ''Another text'' \<rparr>)"
    by simp
  from heuristic_validators_determined[of demo_written "''This is CORRECT''" "9 / 10" "1 / 10"
         demo_question "demo_question \<lparr> q_text := ''Another text'' \<rparr>"] h1 h2
  show ?thesis by blast
qed

text \<open>
  Claim C6 as stated fails in the exam simulator: for a written question and the same
  answer, one random draw gives a correct verdict and another an incorrect one.
\<close>

theorem exam_written_random_counterexample:
  "eq_type demo_written = written \<and>
   map ea_isCorrect (es_answers (the (x_currentSession (res_state
      (examSubmitAnswer (demo_exam_env (9 / 10)) demo_exam_answered))))) = [True] \<and>
   map ea_isCorrect (es_answers (the (x_currentSession (res_state
      (examSubmitAnswer (demo_exam_env (1 / 10)) demo_exam_answered))))) = [False] \<and>
   examIsCorrect demo_written ''x = 3'' (9 / 10) \<noteq> examIsCorrect demo_written ''x = 3'' (1 / 10)"
  by code_simp

lemma startsWith_length: "startsWith s p \<Longrightarrow> length p \<le> length s"
  by (induction s p rule: startsWith.induct) simp_all

lemma includes_str_length: "includes_str s sub \<Longrightarrow> length sub \<le> length s"
  by (induction s) (auto dest: startsWith_length)

lemma length_trim_le: "length (trim s) \<le> length s"
proof -
  have "length (dropWhile is_ws (rev (dropWhile is_ws s))) \<le> length (rev (dropWhile is_ws s))"
    by (rule length_dropWhile_le)
  also have "\<dots> \<le> length s" by (simp add: length_dropWhile_le)
  finally show ?thesis by (simp add: trim_def)
qed

lemma validateStep_short:
  assumes "length step < 3"
  shows "validateStep step qt =
     \<lparr> v_isCorrect = Some (JBool False), errorType = Some (JStr ''syntax''),
       v_feedback = Some (JStr ''Please write a more complete step showing your work.''),
       encouragement = Some (JStr ''Take your time and show each calculation clearly.'') \<rparr>"
proof -
  have len: "length (trim (toLowerCase step)) < 3"
    using length_trim_le[of "toLowerCase step"] assms by (simp add: toLowerCase_def)
  have no: "\<not> includes_str (trim (toLowerCase step)) p" if "3 \<le> length p" for p
    using includes_str_length[of "trim (toLowerCase step)" p] len that by auto
  show ?thesis
    using assms by (simp add: validateStep_def Let_def no)
qed

text \<open>
  Claim C7, as the code has it: an attempt that is empty or only white space is turned
  away at once, with a toast and nothing else: no call to the judgment service, no verdict,
  the state unchanged (practice engine and whiteboard). The length threshold belongs to the
  local validator of the whiteboard: a step of fewer than three characters that is not
  blank gets the verdict incorrect with error kind syntax when the judgment service could
  not be used.
\<close>

theorem blank_attempt_rejected_without_verdict:
  "(currentQuestion s = Some q \<and> currentSession s = Some sess \<and> questionStartTime s = Some t0 \<and>
    trim (chosenAnswer s q) = [] \<longrightarrow>
      submitAnswer env s =
        \<lparr> res_state = s, res_effects = [Toast ''Please provide an answer''], res_thrown = None \<rparr>) \<and>
   (trim (currentStep w) = [] \<longrightarrow>
      handleStepValidation wenv w =
        \<lparr> res_state = w, res_effects = [Toast ''Empty Step''], res_thrown = None \<rparr>) \<and>
   (trim (currentStep w) \<noteq> [] \<and> length (currentStep w) < 3 \<and> (ai wenv = AiFailed \<or> ai wenv = NoApiKey) \<longrightarrow>
      (\<exists>st. steps (res_state (handleStepValidation wenv w)) = steps w @ [st] \<and>
            map_option v_isCorrect (validation st) = Some (Some (JBool False)) \<and>
            map_option errorType (validation st) = Some (Some (JStr ''syntax''))))"
  by (auto simp: submitAnswer_def handleStepValidation_def validateStepWithAI_def Let_def validateStep_short)

text \<open>
  The theorem at the demo session with no option selected, at a board whose step is two
  spaces, and at the one-character step checked offline.
\<close>

theorem blank_attempt_rejected_without_verdict_witness:
  "submitAnswer demo_env demo_blank =
     \<lparr> res_state = demo_blank, res_effects = [Toast ''Please provide an answer''], res_thrown = None \<rparr> \<and>
   handleStepValidation demo_offline (wb_init \<lparr> currentStep := ''  '' \<rparr>) =
     \<lparr> res_state = wb_init \<lparr> currentStep := ''  '' \<rparr>, res_effects = [Toast ''Empty Step''],
       res_thrown = None \<rparr> \<and>
   (\<exists>st. steps (res_state (handleStepValidation demo_offline demo_short_board)) = steps demo_short_board @ [st] \<and>
            map_option v_isCorrect (validation st) = Some (Some (JBool False)) \<and>
            map_option errorType (validation st) = Some (Some (JStr ''syntax'')))"
proof -
  have h1: "currentQuestion demo_blank = Some demo_question \<and>
            currentSession demo_blank = currentSession demo_started \<and>
            currentSession demo_started \<noteq> None \<and>
            questionStartTime demo_blank = Some 1000 \<and>
            trim (chosenAnswer demo_blank demo_question) = []" by code_simp
  have h2: "trim (currentStep (wb_init \<lparr> currentStep := ''  '' \<rparr>)) = []" by code_simp
  have h3: "trim (currentStep demo_short_board) \<noteq> [] \<and> length (currentStep demo_short_board) < 3 \<and>
            ai demo_offline = AiFailed" by code_simp
  from h1 obtain sess where s: "currentSession demo_blank = Some sess" by auto
  from blank_attempt_rejected_without_verdict[of demo_blank demo_question sess 1000 demo_env
      "wb_init \<lparr> currentStep := ''  '' \<rparr>" demo_offline] h1 s h2
  have a: "submitAnswer demo_env demo_blank =
     \<lparr> res_state = demo_blank, res_effects = [Toast ''Please provide an answer''], res_thrown = None \<rparr>"
    and b: "handleStepValidation demo_offline (wb_init \<lparr> currentStep := ''  '' \<rparr>) =
     \<lparr> res_state = wb_init \<lparr> currentStep := ''  '' \<rparr>, res_effects = [Toast ''Empty Step''],
       res_thrown = None \<rparr>" by blast+
  from blank_attempt_rejected_without_verdict[of demo_blank demo_question sess 1000 demo_env
      demo_short_board demo_offline] h3
  have c: "\<exists>st. steps (res_state (handleStepValidation demo_offline demo_short_board)) = steps demo_short_board @ [st] \<and>
            map_option v_isCorrect (validation st) = Some (Some (JBool False)) \<and>
            map_option errorType (validation st) = Some (Some (JStr ''syntax''))" by blast
  from a b c show ?thesis by blast
qed

text \<open>
  Claim C7 as stated fails: for a one-character step the judgment service is called and
  its verdict (correct, no error kind) is the one recorded; and for an empty attempt no
  verdict is recorded at all.
\<close>

theorem short_attempt_counterexample:
  "trim (currentStep demo_short_board) \<noteq> [] \<and> length (currentStep demo_short_board) < 3 \<and>
   JudgeCall \<in> set (res_effects (handleStepValidation demo_accepting demo_short_board)) \<and>
   map (\<lambda>st. map_option v_isCorrect (validation st))
     (steps (res_state (handleStepValidation demo_accepting demo_short_board))) = [Some (Some (JBool True))] \<and>
   map (\<lambda>st. map_option errorType (validation st))
     (steps (res_state (handleStepValidation demo_accepting demo_short_board))) = [Some (Some JNull)] \<and>
   chosenAnswer demo_blank demo_question = [] \<and>
   answers (the (currentSession (res_state (submitAnswer demo_env demo_blank)))) = [] \<and>
   steps (res_state (handleStepValidation demo_offline wb_init)) = []"
  by code_simp

section \<open>Submitting after completion\<close>









section \<open>Properties of the exam timer\<close>

lemma exam_types_duration: "et \<in> set EXAM_TYPES \<Longrightarrow> 0 \<le> duration et"
  by (auto simp: EXAM_TYPES_def)

lemma tick_time:
  "timeRemaining (tick snap c s) =
     (if timer_running s then timeRemaining s - 1 else timeRemaining s)"
  by (auto simp: tick_def timer_running_def)

lemma examSubmit_time: "timeRemaining (res_state (examSubmitAnswer env s)) = timeRemaining s"
  by (simp add: examSubmitAnswer_def Let_def endExam_def split: option.splits)

lemma exam_step_time:
  "\<not> is_arrival ev \<Longrightarrow> examPhase s = exam \<Longrightarrow>
     timeRemaining (exam_step s ev) =
       (case ev of Tick snap c \<Rightarrow> (if timer_running s then timeRemaining s - 1 else timeRemaining s)
        | _ \<Rightarrow> timeRemaining s)"
  by (cases ev) (simp_all add: tick_time examSubmit_time)

lemma list_all_remove: "list_all P xs \<Longrightarrow> list_all P (take i xs @ drop (Suc i) xs)"
  by (auto simp: list_all_iff dest: in_set_takeD in_set_dropD)

lemma exam_inv_step: "exam_inv s \<Longrightarrow> exam_inv (exam_step s ev)"
proof (cases ev)
  case (SelectExamType i)
  then show "exam_inv s \<Longrightarrow> exam_inv (exam_step s ev)"
    using exam_types_duration[of "EXAM_TYPES ! i"] by (auto simp: exam_inv_def)
next
  case StartExam
  then show "exam_inv s \<Longrightarrow> exam_inv (exam_step s ev)"
    by (auto simp: exam_inv_def startExam_click_def split: option.splits)
next
  case (QuestionsArrive i env)
  show "exam_inv s \<Longrightarrow> exam_inv (exam_step s ev)"
  proof -
    assume inv: "exam_inv s"
    show ?thesis
    proof (cases "i < length (starting s)")
      case True
      have all: "list_all (\<lambda>et. 0 \<le> duration et) (starting s)"
        using inv by (simp add: exam_inv_def)
      then have "0 \<le> duration (starting s ! i)"
        using True by (simp add: list_all_length)
      with inv True QuestionsArrive list_all_remove[OF all, of i] show ?thesis
        by (simp add: exam_inv_def startExam_resume_def)
    next
      case False
      with inv QuestionsArrive show ?thesis by simp
    qed
  qed
next
  case (ExamSubmit env)
  then show "exam_inv s \<Longrightarrow> exam_inv (exam_step s ev)"
    by (auto simp: exam_inv_def examSubmit_time examSubmitAnswer_def Let_def endExam_def
        split: option.splits)
next
  case (Tick snap c)
  then show "exam_inv s \<Longrightarrow> exam_inv (exam_step s ev)"
    by (auto simp: exam_inv_def tick_def timer_running_def endExam_def split: option.splits)
qed (auto simp: exam_inv_def)

lemma exam_inv_foldl: "exam_inv s \<Longrightarrow> exam_inv (foldl exam_step s evs)"
  by (induction evs arbitrary: s) (simp_all add: exam_inv_step)

lemma exam_inv_run: "exam_inv (exam_run evs)"
  unfolding exam_run_def by (rule exam_inv_foldl) (simp add: exam_inv_def exam_init_def)

lemma ticks_expire:
  "timer_running s \<Longrightarrow> length xs = nat (timeRemaining s) \<Longrightarrow>
     examPhase (ticks xs s) = exam_completed \<and> timeRemaining (ticks xs s) = 0"
proof (induction xs arbitrary: s)
  case Nil
  then show ?case by (simp add: timer_running_def)
next
  case (Cons x xs)
  obtain sn c where x: "x = (sn, c)" by (cases x)
  show ?case
  proof (cases "timeRemaining s \<le> 1")
    case True
    with Cons.prems have "timeRemaining s = 1" by (simp add: timer_running_def)
    with Cons.prems have "xs = []" by simp
    with True Cons.prems x show ?thesis
      by (simp add: tick_def endExam_def)
  next
    case False
    with Cons.prems have "timer_running (tick (Some sn) c s)"
      and "length xs = nat (timeRemaining (tick (Some sn) c s))"
      by (auto simp: tick_def timer_running_def)
    from Cons.IH[OF this] x show ?thesis by simp
  qed
qed

lemma foldl_ticks:
  "timer_running s \<Longrightarrow> int n < timeRemaining s \<Longrightarrow>
     foldl exam_step s (replicate n (Tick snap c)) = s \<lparr> timeRemaining := timeRemaining s - int n \<rparr>"
proof (induction n arbitrary: s)
  case 0
  then show ?case by simp
next
  case (Suc n)
  have t: "tick snap c s = s \<lparr> timeRemaining := timeRemaining s - 1 \<rparr>"
    using Suc.prems by (simp add: tick_def)
  have r: "timer_running (s \<lparr> timeRemaining := timeRemaining s - 1 \<rparr>)"
    using Suc.prems by (simp add: timer_running_def)
  have l: "int n < timeRemaining (s \<lparr> timeRemaining := timeRemaining s - 1 \<rparr>)"
    using Suc.prems by simp
  show ?case
    using Suc.IH[OF r l] t by (simp add: algebra_simps)
qed

lemma demo_last_second_state:
  "exam_run demo_last_second = (exam_run demo_exam_events) \<lparr> timeRemaining := 1 \<rparr>"
proof -
  have h0: "timeRemaining (exam_run demo_exam_events) = 1800 \<and>
            timer_running (exam_run demo_exam_events)" by code_simp
  from foldl_ticks[of "exam_run demo_exam_events" 1799 "x_currentSession demo_exam" 0] h0
  show ?thesis by (simp add: demo_last_second_def demo_ticks_def exam_run_def)
qed

text \<open>
  Claim C9, as the code has it. In every state the exam simulator reaches, the remaining
  time is not negative. While the phase is \<open>exam\<close>, no control and no tick increases
  it, and none changes it while the exam is paused; this is said of every event but the
  arrival of the questions of a start that was still waiting. The remaining time does not
  reach zero before the forced completion: the tick that finds one second left sets it to
  zero in the same update that completes the exam. From a running exam with \<open>t\<close>
  seconds left, \<open>t\<close> ticks complete the exam with exactly zero left.
\<close>

theorem exam_time_remaining:
  "0 \<le> timeRemaining (exam_run evs) \<and>
   (examPhase (exam_run evs) = exam \<and> \<not> is_arrival ev \<longrightarrow>
      timeRemaining (exam_step (exam_run evs) ev) \<le> timeRemaining (exam_run evs)) \<and>
   (examPhase (exam_run evs) = exam \<and> isPaused (exam_run evs) \<and> \<not> is_arrival ev \<longrightarrow>
      timeRemaining (exam_step (exam_run evs) ev) = timeRemaining (exam_run evs)) \<and>
   (examPhase (exam_run evs) = exam \<and>
    examPhase (exam_step (exam_run evs) (Tick snap clock)) = exam_completed \<longrightarrow>
      timeRemaining (exam_run evs) = 1 \<and>
      timeRemaining (exam_step (exam_run evs) (Tick snap clock)) = 0) \<and>
   (timer_running (exam_run evs) \<and> length xs = nat (timeRemaining (exam_run evs)) \<longrightarrow>
      examPhase (ticks xs (exam_run evs)) = exam_completed \<and>
      timeRemaining (ticks xs (exam_run evs)) = 0)"
proof -
  define s where "s = exam_run evs"
  have inv: "exam_inv s" unfolding s_def by (rule exam_inv_run)
  have a: "0 \<le> timeRemaining s" using inv by (simp add: exam_inv_def)
  have b: "timeRemaining (exam_step s ev) \<le> timeRemaining s"
    if "examPhase s = exam" "\<not> is_arrival ev"
    using exam_step_time[OF that(2,1)] by (simp split: exam_event.splits)
  have c: "timeRemaining (exam_step s ev) = timeRemaining s"
    if "examPhase s = exam" "isPaused s" "\<not> is_arrival ev"
    using exam_step_time[OF that(3,1)] that(2)
    by (simp add: timer_running_def split: exam_event.splits)
  have d: "timeRemaining s = 1 \<and> timeRemaining (exam_step s (Tick snap clock)) = 0"
    if "examPhase s = exam" "examPhase (exam_step s (Tick snap clock)) = exam_completed"
    using that by (auto simp: tick_def timer_running_def endExam_def split: if_splits option.splits)
  have e: "examPhase (ticks xs s) = exam_completed \<and> timeRemaining (ticks xs s) = 0"
    if "timer_running s" "length xs = nat (timeRemaining s)"
    using ticks_expire[OF that] .
  from a b c d e show ?thesis unfolding s_def by blast
qed

text \<open>
  The theorem at the demo exam: just started, paused, and in its last second.
\<close>

theorem exam_time_remaining_witness:
  "timeRemaining (exam_run demo_exam_events) = 1800 \<and>
   timeRemaining (exam_step (exam_run demo_exam_events) (Tick (x_currentSession demo_exam) 0)) \<le> 1800 \<and>
   isPaused (exam_run demo_paused) \<and>
   timeRemaining (exam_step (exam_run demo_paused) (Tick (x_currentSession demo_exam) 0)) = 1800 \<and>
   timeRemaining (exam_run demo_last_second) = 1 \<and>
   examPhase (exam_step (exam_run demo_last_second) (Tick (x_currentSession demo_exam) 0)) = exam_completed \<and>
   timeRemaining (exam_step (exam_run demo_last_second) (Tick (x_currentSession demo_exam) 0)) = 0 \<and>
   examPhase (ticks (demo_snaps 1800) (exam_run demo_exam_events)) = exam_completed \<and>
   timeRemaining (ticks (demo_snaps 1800) (exam_run demo_exam_events)) = 0"
proof -
  let ?tk = "Tick (x_currentSession demo_exam) 0"
  have ntk: "\<not> is_arrival ?tk" by simp
  have h0: "examPhase (exam_run demo_exam_events) = exam \<and>
            timeRemaining (exam_run demo_exam_events) = 1800 \<and>
            timer_running (exam_run demo_exam_events) \<and>
            x_currentSession demo_exam \<noteq> None" by code_simp
  have hp: "examPhase (exam_run demo_paused) = exam \<and> isPaused (exam_run demo_paused) \<and>
            timeRemaining (exam_run demo_paused) = 1800" by code_simp
  note run = demo_last_second_state
  have hl: "examPhase (exam_run demo_last_second) = exam \<and>
            timeRemaining (exam_run demo_last_second) = 1"
    using run h0 by simp
  have hc: "examPhase (exam_step (exam_run demo_last_second) ?tk) = exam_completed"
    using run h0 by (auto simp: tick_def timer_running_def endExam_def)
  have hn: "length (demo_snaps 1800) = nat (timeRemaining (exam_run demo_exam_events))"
    using h0 by (simp add: demo_snaps_def)
  from exam_time_remaining[of demo_exam_events ?tk "x_currentSession demo_exam" 0 "demo_snaps 1800"]
       exam_time_remaining[of demo_paused ?tk "x_currentSession demo_exam" 0 "[]"]
       exam_time_remaining[of demo_last_second ?tk "x_currentSession demo_exam" 0 "[]"]
       h0 hp hl hc hn ntk
  show ?thesis by simp
qed

text \<open>
  Claim C9 as stated fails. Start is clicked twice while the questions are generated; the
  exam has run for five seconds, with 1795 seconds left, when the questions of the second
  start arrive: the exam stays in its phase and the remaining time goes up to 1800, and so
  it does when the exam is paused. And the remaining time is not zero before the forced
  completion: in its last second the exam is active with one second left, and the next
  tick completes it and leaves zero.
\<close>

theorem exam_time_counterexample:
  "examPhase (exam_run demo_double_start) = exam \<and>
   timeRemaining (exam_run demo_double_start) = 1795 \<and>
   examPhase (exam_step (exam_run demo_double_start) demo_second_arrival) = exam \<and>
   timeRemaining (exam_step (exam_run demo_double_start) demo_second_arrival) = 1800 \<and>
   examPhase (exam_run demo_double_start_paused) = exam \<and>
   isPaused (exam_run demo_double_start_paused) \<and>
   timeRemaining (exam_run demo_double_start_paused) = 1795 \<and>
   timeRemaining (exam_step (exam_run demo_double_start_paused) demo_second_arrival) = 1800 \<and>
   examPhase (exam_run demo_last_second) = exam \<and>
   timeRemaining (exam_run demo_last_second) = 1 \<and>
   examPhase (exam_step (exam_run demo_last_second) (Tick (x_currentSession demo_exam) 0)) = exam_completed \<and>
   timeRemaining (exam_step (exam_run demo_last_second) (Tick (x_currentSession demo_exam) 0)) = 0"
proof -
  have a: "examPhase (exam_run demo_double_start) = exam \<and>
   timeRemaining (exam_run demo_double_start) = 1795 \<and>
   examPhase (exam_step (exam_run demo_double_start) demo_second_arrival) = exam \<and>
   timeRemaining (exam_step (exam_run demo_double_start) demo_second_arrival) = 1800 \<and>
   examPhase (exam_run demo_double_start_paused) = exam \<and>
   isPaused (exam_run demo_double_start_paused) \<and>
   timeRemaining (exam_run demo_double_start_paused) = 1795 \<and>
   timeRemaining (exam_step (exam_run demo_double_start_paused) demo_second_arrival) = 1800"
    by code_simp
  have h0: "examPhase (exam_run demo_exam_events) = exam \<and>
            \<not> isPaused (exam_run demo_exam_events) \<and>
            x_currentSession demo_exam \<noteq> None" by code_simp
  have b: "examPhase (exam_run demo_last_second) = exam \<and>
   timeRemaining (exam_run demo_last_second) = 1 \<and>
   examPhase (exam_step (exam_run demo_last_second) (Tick (x_currentSession demo_exam) 0)) = exam_completed \<and>
   timeRemaining (exam_step (exam_run demo_last_second) (Tick (x_currentSession demo_exam) 0)) = 0"
    using demo_last_second_state h0 by (auto simp: tick_def timer_running_def endExam_def)
  from a b show ?thesis by blast
qed

end
